theory Spec2Isabelle
  imports Main
begin

section \<open>JavaScript values, strings and exceptions\<close>

text \<open>
  The pipeline is JavaScript.  A JavaScript string is modelled as a HOL \<open>string\<close>, the
  bytes of its UTF-8 encoding.  On ASCII text a \<open>char\<close> is a code unit, so \<open>length\<close>,
  \<open>substring\<close>, \<open>trim\<close> and the regular expressions of the program agree with the
  model.  The characters of the program's own literals that lie outside ASCII (emoji,
  bullets) are written as their bytes; no function of the program measures or cuts them.

  A value that comes out of \<open>JSON.parse\<close>, or out of the request body, is a \<open>jsval\<close>.
  \<open>Num n\<close> is a number whose value is the integer \<open>n\<close>, with \<open>\<bar>n\<bar> < 10^21\<close>, the range
  that JavaScript prints in plain decimal notation; fractional numbers are not modelled.
  An object is its list of own properties, in which the first entry for a key is the
  one that counts.
\<close>

datatype jsval =
    Undefined
  | Null
  | Bool bool
  | Num int
  | Str string
  | Arr "jsval list"
  | Obj "(string \<times> jsval) list"

text \<open>Every \<open>throw\<close> of the program or of its libraries is a value carrying the message.\<close>

datatype exn =
    TypeError string
  | SyntaxError string
  | ApiError string
  | IoError string

fun message :: "exn \<Rightarrow> string" where
  "message (TypeError m) = m"
| "message (SyntaxError m) = m"
| "message (ApiError m) = m"
| "message (IoError m) = m"

text \<open>Sequencing of steps that may throw: the first exception ends the block.\<close>

definition bindE :: "exn + 'a \<Rightarrow> ('a \<Rightarrow> exn + 'b) \<Rightarrow> exn + 'b" where
  "bindE x f = (case x of Inl e \<Rightarrow> Inl e | Inr v \<Rightarrow> f v)"

text \<open>Truthiness, as \<open>||\<close>, \<open>!\<close> and \<open>if\<close> test it.\<close>

fun truthy :: "jsval \<Rightarrow> bool" where
  "truthy Undefined = False"
| "truthy Null = False"
| "truthy (Bool b) = b"
| "truthy (Num n) = (n \<noteq> 0)"
| "truthy (Str s) = (s \<noteq> [])"
| "truthy (Arr xs) = True"
| "truthy (Obj kvs) = True"

text \<open>\<open>a ?? b\<close> and \<open>a || b\<close>.\<close>

definition nullish :: "jsval \<Rightarrow> bool" where
  "nullish v = (v = Undefined \<or> v = Null)"

definition js_or :: "jsval \<Rightarrow> jsval \<Rightarrow> jsval" where
  "js_or a b = (if truthy a then a else b)"

text \<open>
  Property read \<open>v.k\<close>.  On \<open>undefined\<close> and \<open>null\<close> it throws a TypeError.  On a
  number, boolean, string or array it yields \<open>undefined\<close> for every key the program reads
  (\<open>classification\<close>, \<open>reason\<close>, \<open>detectedTopic\<close>, \<open>title\<close>, \<open>subtitle\<close>, \<open>keyConcepts\<close>,
  \<open>category\<close>, \<open>codeSnippet\<close>, \<open>interviewTip\<close>): none of them is a built-in property.
\<close>

fun get_prop :: "jsval \<Rightarrow> string \<Rightarrow> exn + jsval" where
  "get_prop Undefined k = Inl (TypeError (''Cannot read properties of undefined (reading '' @ k @ '')''))"
| "get_prop Null k = Inl (TypeError (''Cannot read properties of null (reading '' @ k @ '')''))"
| "get_prop (Obj kvs) k = Inr (case map_of kvs k of None \<Rightarrow> Undefined | Some v \<Rightarrow> v)"
| "get_prop v k = Inr Undefined"

subsection \<open>Numbers and strings\<close>

definition digit_char :: "nat \<Rightarrow> char" where
  "digit_char d = ''0123456789'' ! d"

fun show_nat :: "nat \<Rightarrow> string" where
  "show_nat n = (if n < 10 then [digit_char n] else show_nat (n div 10) @ [digit_char (n mod 10)])"

declare show_nat.simps [simp del]

definition show_int :: "int \<Rightarrow> string" where
  "show_int i = (if i < 0 then CHR ''-'' # show_nat (nat (- i)) else show_nat (nat i))"

definition join :: "string \<Rightarrow> string list \<Rightarrow> string" where
  "join sep xs = (case xs of [] \<Rightarrow> [] | y # ys \<Rightarrow> y @ concat (map (\<lambda>z. sep @ z) ys))"

text \<open>
  \<open>String(v)\<close>, which a template literal and a computed property key apply.  An array
  prints its elements separated by commas, \<open>null\<close> and \<open>undefined\<close> elements as nothing.
  A number prints in plain decimal notation, which is what JavaScript does below
  \<open>10^21\<close>; from there on JavaScript prints an exponent, which is not modelled.
\<close>

fun to_string :: "jsval \<Rightarrow> string" where
  "to_string Undefined = ''undefined''"
| "to_string Null = ''null''"
| "to_string (Bool b) = (if b then ''true'' else ''false'')"
| "to_string (Num n) = show_int n"
| "to_string (Str s) = s"
| "to_string (Arr xs) =
     join '','' (map (\<lambda>x. if x = Undefined \<or> x = Null then [] else to_string x) xs)"
| "to_string (Obj kvs) = ''[object Object]''"

text \<open>
  White space as \<open>trim\<close>, \<open>parseInt\<close> and the regular expression class \<open>\s\<close> see it
  on ASCII text.  JavaScript also counts the spaces outside ASCII (U+00A0, U+FEFF and the
  other Unicode spaces); they are not modelled.
\<close>

definition is_ws :: "char \<Rightarrow> bool" where
  "is_ws c = (c \<in> set [CHR 0x09, CHR 0x0A, CHR 0x0B, CHR 0x0C, CHR 0x0D, CHR 0x20])"

definition trim :: "string \<Rightarrow> string" where
  "trim s = rev (dropWhile is_ws (rev (dropWhile is_ws s)))"

definition starts_with :: "string \<Rightarrow> string \<Rightarrow> bool" where
  "starts_with s p = (take (length p) s = p)"

definition ends_with :: "string \<Rightarrow> string \<Rightarrow> bool" where
  "ends_with s p = (length p \<le> length s \<and> drop (length s - length p) s = p)"

text \<open>
  A string method called on a value: \<open>v.trim()\<close>, \<open>v.replace(..)\<close>, \<open>v.substring(..)\<close>,
  \<open>v.toUpperCase()\<close>.  Only a string has the method; on any other value the call throws.
\<close>

fun as_string :: "string \<Rightarrow> jsval \<Rightarrow> exn + string" where
  "as_string m (Str s) = Inr s"
| "as_string m v = Inl (TypeError (m @ '' is not a function''))"

section \<open>The pipeline state and the outside world\<close>

text \<open>
  The shared state of \<open>graph.js\<close>.  \<open>None\<close> is \<open>null\<close>.  The classification is whatever
  value the classifier stored, \<open>Null\<close> when absent.
\<close>

record state =
  query :: string
  duration :: int
  topic :: "string option"
  rejected :: bool
  rejectionReason :: "string option"
  classification :: jsval
  markdown :: "string option"
  imageUrl :: "string option"
  audioText :: "string option"
  mediaFailed :: bool

text \<open>
  What one run meets outside the program: the outcome of each of the four completion
  requests (an exception, or the text of the reply; for the Groq client the text may be
  missing), the library function \<open>JSON.parse\<close>, the environment variable \<open>VERCEL\<close>, the
  clock, the directory of the public folder and whether the disk accepts a write.
  The prompts only decide what the provider is asked; the reply is arbitrary either way,
  so the outcomes are given directly.
\<close>

record world =
  classifier_reply :: "exn + string"
  content_reply :: "exn + string"
  visual_reply :: "exn + string option"
  narration_reply :: "exn + string option"
  json_parse :: "string \<Rightarrow> exn + jsval"
  VERCEL :: "string option"
  now :: nat
  publicDir :: string
  disk_ok :: bool

section \<open>Supervisor (classifier stage), \<open>server/agents/supervisor.js\<close>\<close>

definition lower_ascii :: "char \<Rightarrow> char" where
  "lower_ascii c =
     (if of_char (CHR ''A'') \<le> (of_char c :: nat) \<and> (of_char c :: nat) \<le> of_char (CHR ''Z'')
      then char_of ((of_char c :: nat) + 32) else c)"

text \<open>\<open>text.replace(/^```(?:json)?\s*/i, "")\<close>\<close>

definition strip_open_fence :: "string \<Rightarrow> string" where
  "strip_open_fence t =
     (if starts_with t ''```'' then
        (let r = drop 3 t;
             r' = (if map lower_ascii (take 4 r) = ''json'' then drop 4 r else r)
         in dropWhile is_ws r')
      else t)"

text \<open>\<open>text.replace(/\s*```$/i, "")\<close>: the closing fence and the white space before it.\<close>

definition strip_close_fence :: "string \<Rightarrow> string" where
  "strip_close_fence t =
     (if ends_with t ''```'' then rev (dropWhile is_ws (rev (take (length t - 3) t))) else t)"

definition harmful_prefix :: string where
  "harmful_prefix =
     [CHR 0xE2, CHR 0x9A, CHR 0xA0, CHR 0xEF, CHR 0xB8, CHR 0x8F]
       @ '' This query was flagged as harmful: ''"

definition irrelevant_prefix :: string where
  "irrelevant_prefix =
     [CHR 0xF0, CHR 0x9F, CHR 0x9A, CHR 0xAB]
       @ '' This query is not related to placement preparation: ''"

text \<open>The body of the \<open>try\<close> block of \<open>runSupervisor\<close>.\<close>

definition supervisor_try :: "world \<Rightarrow> state \<Rightarrow> exn + state" where
  "supervisor_try w s =
     bindE (classifier_reply w) (\<lambda>content.
       let text = strip_close_fence (strip_open_fence (trim content)) in
       bindE (json_parse w text) (\<lambda>result.
         bindE (get_prop result ''classification'') (\<lambda>cls.
           if cls \<noteq> Str ''placement_topic'' then
             bindE (get_prop result ''reason'') (\<lambda>reason.
               Inr (s\<lparr>rejected := True,
                      rejectionReason := Some
                        ((if cls = Str ''harmful'' then harmful_prefix else irrelevant_prefix)
                           @ to_string reason),
                      classification := cls\<rparr>))
           else
             Inr (s\<lparr>rejected := False,
                    topic := Some (query s),
                    classification := cls\<rparr>))))"

text \<open>\<open>runSupervisor\<close>: the \<open>catch\<close> block turns every exception into an acceptance.\<close>

definition runSupervisor :: "world \<Rightarrow> state \<Rightarrow> state" where
  "runSupervisor w s =
     (case supervisor_try w s of
        Inr s' \<Rightarrow> s'
      | Inl e \<Rightarrow> s\<lparr>rejected := False,
                    topic := Some (query s),
                    classification := Str ''placement_topic''\<rparr>)"

text \<open>
  The classifier of the serverless handler, \<open>api/chat.js\<close>.  It has no \<open>try\<close> of its own
  (the handler catches), does not strip fences, and returns a fresh object.
\<close>

record supervisor_result =
  sr_rejected :: bool
  sr_rejectionReason :: "string option"
  sr_classification :: jsval
  sr_topic :: jsval

definition api_runSupervisor :: "world \<Rightarrow> string \<Rightarrow> exn + supervisor_result" where
  "api_runSupervisor w q =
     bindE (classifier_reply w) (\<lambda>content.
       let text = trim content in
       bindE (json_parse w text) (\<lambda>result.
         bindE (get_prop result ''classification'') (\<lambda>cls.
           if cls \<noteq> Str ''placement_topic'' then
             bindE (get_prop result ''reason'') (\<lambda>reason.
               Inr \<lparr>sr_rejected = True,
                    sr_rejectionReason = Some
                      ((if cls = Str ''harmful'' then harmful_prefix else irrelevant_prefix)
                         @ to_string reason),
                    sr_classification = cls,
                    sr_topic = Null\<rparr>)
           else
             bindE (get_prop result ''detectedTopic'') (\<lambda>detected.
               Inr \<lparr>sr_rejected = False,
                    sr_rejectionReason = None,
                    sr_classification = cls,
                    sr_topic = js_or detected (Str q)\<rparr>))))"

section \<open>Initial state: \<open>createInitialState\<close> and the chat route\<close>

text \<open>A JavaScript number as the route computes with it: an integer or \<open>NaN\<close>.\<close>

datatype jsnum = NaN | Fin int

definition digit_val :: "char \<Rightarrow> nat option" where
  "digit_val c =
     (let n = (of_char c :: nat) in
      if of_char (CHR ''0'') \<le> n \<and> n \<le> of_char (CHR ''9'') then Some (n - of_char (CHR ''0''))
      else if of_char (CHR ''a'') \<le> n \<and> n \<le> of_char (CHR ''f'') then Some (n - of_char (CHR ''a'') + 10)
      else if of_char (CHR ''A'') \<le> n \<and> n \<le> of_char (CHR ''F'') then Some (n - of_char (CHR ''A'') + 10)
      else None)"

definition is_digit :: "nat \<Rightarrow> char \<Rightarrow> bool" where
  "is_digit radix c = (case digit_val c of None \<Rightarrow> False | Some d \<Rightarrow> d < radix)"

definition digits_value :: "nat \<Rightarrow> string \<Rightarrow> nat" where
  "digits_value radix ds = foldl (\<lambda>a c. a * radix + the (digit_val c)) 0 ds"

text \<open>
  \<open>parseInt(s)\<close> with no radix: leading white space is skipped, a sign is read, a prefix
  \<open>0x\<close> selects base 16, and the longest run of digits is the value; no digit gives \<open>NaN\<close>.
\<close>

definition parseInt_string :: "string \<Rightarrow> jsnum" where
  "parseInt_string s =
     (let t = dropWhile is_ws s;
          neg = starts_with t ''-'' \<and> t \<noteq> [];
          u = (if t \<noteq> [] \<and> (hd t = CHR ''-'' \<or> hd t = CHR ''+'') then tl t else t);
          hex = (map lower_ascii (take 2 u) = ''0x'');
          radix = (if hex then 16 else 10);
          v = (if hex then drop 2 u else u);
          ds = takeWhile (is_digit radix) v
      in if ds = [] then NaN
         else Fin ((if neg then - 1 else 1) * int (digits_value radix ds)))"

text \<open>\<open>parseInt(v)\<close> converts its argument to a string first.\<close>

definition parseInt :: "jsval \<Rightarrow> jsnum" where
  "parseInt v = parseInt_string (to_string v)"

text \<open>\<open>x || d\<close> for a number \<open>x\<close>: \<open>NaN\<close> and \<open>0\<close> are falsy.\<close>

definition num_or :: "jsnum \<Rightarrow> int \<Rightarrow> int" where
  "num_or x d = (case x of NaN \<Rightarrow> d | Fin n \<Rightarrow> if n = 0 then d else n)"

definition createInitialState :: "string \<Rightarrow> jsnum \<Rightarrow> state" where
  "createInitialState q d =
     \<lparr>query = q,
      duration = min 5 (max 2 (num_or d 3)),
      topic = None,
      rejected = False,
      rejectionReason = None,
      classification = Null,
      markdown = None,
      imageUrl = None,
      audioText = None,
      mediaFailed = False\<rparr>"

text \<open>
  The route \<open>POST /api/chat\<close> of \<open>server/routes/chat.js\<close>, up to the state it hands to the
  graph.  \<open>None\<close> is the answer 400: the query is missing, not a string, or blank.
\<close>

definition durationVal :: "jsval \<Rightarrow> int" where
  "durationVal d = num_or (parseInt d) 3"

definition request_initial_state :: "jsval \<Rightarrow> jsval \<Rightarrow> state option" where
  "request_initial_state q d =
     (case q of
        Str s \<Rightarrow>
          if trim s = [] then None
          else Some (createInitialState (trim s) (Fin (durationVal d)))
      | _ \<Rightarrow> None)"

section \<open>Researcher (content stage), \<open>server/agents/researcher.js\<close>\<close>

definition topic_val :: "state \<Rightarrow> jsval" where
  "topic_val s = (case topic s of None \<Rightarrow> Null | Some t \<Rightarrow> Str t)"

text \<open>The markdown that the \<open>catch\<close> block of \<open>runResearcher\<close> substitutes.\<close>

definition error_markdown :: "state \<Rightarrow> exn \<Rightarrow> string" where
  \<open>error_markdown s e =
     concat
      [''## '', [CHR 0xE2, CHR 0x9A, CHR 0xA0, CHR 0xEF, CHR 0xB8, CHR 0x8F],
       '' Content Generation Error\<newline>\<newline>'',
       ''We encountered an issue generating content for "'', to_string (topic_val s),
       ''". Please try again.\<newline>\<newline>*Error: '', message e, ''*'']\<close>

definition runResearcher :: "world \<Rightarrow> state \<Rightarrow> state" where
  "runResearcher w s =
     (if rejected s then s
      else (case content_reply w of
              Inr content \<Rightarrow> s\<lparr>markdown := Some (trim content)\<rparr>
            | Inl e \<Rightarrow> s\<lparr>markdown := Some (error_markdown s e)\<rparr>))"

section \<open>Template renderer, \<open>server/agents/mediaEngine.js\<close>\<close>

subsection \<open>Escaping\<close>

text \<open>\<open>s.replace(/c/g, r)\<close> for a single character \<open>c\<close>.\<close>

definition replace_char :: "char \<Rightarrow> string \<Rightarrow> string \<Rightarrow> string" where
  "replace_char c r s = concat (map (\<lambda>x. if x = c then r else [x]) s)"

definition escapeXml :: "string \<Rightarrow> string" where
  \<open>escapeXml str =
     replace_char (CHR 0x27) ''&apos;''
       (replace_char (CHR 0x22) ''&quot;''
         (replace_char (CHR ''>'') ''&gt;''
           (replace_char (CHR ''<'') ''&lt;''
             (replace_char (CHR ''&'') ''&amp;'' str))))\<close>

text \<open>\<open>escapeXml(v)\<close> on a value of any type: \<open>v.replace\<close> exists on strings only.\<close>

definition escapeXml_val :: "jsval \<Rightarrow> exn + string" where
  "escapeXml_val v =
     (if nullish v then Inl (TypeError ''Cannot read properties of null (reading replace)'')
      else bindE (as_string ''str.replace'' v) (\<lambda>s. Inr (escapeXml s)))"

text \<open>
  A text is well escaped when none of \<open>< > " '\<close> occurs in it and every \<open>&\<close> opens
  one of the five entities.
\<close>

definition entity_tails :: "string list" where
  "entity_tails = [''amp;'', ''lt;'', ''gt;'', ''quot;'', ''apos;'']"

fun well_escaped :: "string \<Rightarrow> bool" where
  "well_escaped [] = True"
| "well_escaped (c # cs) =
     ((if c = CHR ''&'' then list_ex (starts_with cs) entity_tails
       else c \<noteq> CHR ''<'' \<and> c \<noteq> CHR ''>'' \<and> c \<noteq> CHR 0x22 \<and> c \<noteq> CHR 0x27)
      \<and> well_escaped cs)"

subsection \<open>Themes\<close>

record theme =
  gradient :: "string list"
  accent :: string
  accentAlt :: string
  icon :: string
  visualType :: string

definition CATEGORY_THEMES :: "(string \<times> theme) list" where
  "CATEGORY_THEMES =
     [(''dsa'',
       \<lparr>gradient = [''#0f0c29'', ''#302b63'', ''#24243e''],
        accent = ''#7c5dfa'', accentAlt = ''#a78bfa'',
        icon = [CHR 0xF0, CHR 0x9F, CHR 0x8C, CHR 0xB3],
        visualType = ''tree''\<rparr>),
      (''web'',
       \<lparr>gradient = [''#0c1220'', ''#1a365d'', ''#1e3a5f''],
        accent = ''#3b82f6'', accentAlt = ''#06b6d4'',
        icon = [CHR 0xF0, CHR 0x9F, CHR 0x8C, CHR 0x90],
        visualType = ''stack''\<rparr>),
      (''system-design'',
       \<lparr>gradient = [''#0c0c1d'', ''#1b1b4b'', ''#2d1b69''],
        accent = ''#e879f9'', accentAlt = ''#a855f7'',
        icon = [CHR 0xF0, CHR 0x9F, CHR 0x8F, CHR 0x97] @ [CHR 0xEF, CHR 0xB8, CHR 0x8F],
        visualType = ''architecture''\<rparr>),
      (''database'',
       \<lparr>gradient = [''#0c1a0c'', ''#1a3a2a'', ''#0d2818''],
        accent = ''#10b981'', accentAlt = ''#34d399'',
        icon = [CHR 0xF0, CHR 0x9F, CHR 0x97, CHR 0x84] @ [CHR 0xEF, CHR 0xB8, CHR 0x8F],
        visualType = ''table''\<rparr>),
      (''os'',
       \<lparr>gradient = [''#1a0c0c'', ''#3a1a1a'', ''#2d1420''],
        accent = ''#f59e0b'', accentAlt = ''#fbbf24'',
        icon = [CHR 0xE2, CHR 0x9A, CHR 0x99] @ [CHR 0xEF, CHR 0xB8, CHR 0x8F],
        visualType = ''process''\<rparr>),
      (''networking'',
       \<lparr>gradient = [''#0c1a20'', ''#1a2d3d'', ''#0d2d3a''],
        accent = ''#06b6d4'', accentAlt = ''#22d3ee'',
        icon = [CHR 0xF0, CHR 0x9F, CHR 0x94, CHR 0x97],
        visualType = ''network''\<rparr>),
      (''oop'',
       \<lparr>gradient = [''#1a0c20'', ''#2d1b40'', ''#3a1c5a''],
        accent = ''#c084fc'', accentAlt = ''#e879f9'',
        icon = [CHR 0xF0, CHR 0x9F, CHR 0x94, CHR 0xB7],
        visualType = ''class''\<rparr>),
      (''general'',
       \<lparr>gradient = [''#0c0c1d'', ''#1a1040'', ''#1e1050''],
        accent = ''#7c5dfa'', accentAlt = ''#e879f9'',
        icon = [CHR 0xF0, CHR 0x9F, CHR 0x92, CHR 0xA1],
        visualType = ''general''\<rparr>)]"

definition general_theme :: theme where
  "general_theme = the (map_of CATEGORY_THEMES ''general'')"

text \<open>
  \<open>CATEGORY_THEMES[key]\<close> finds a theme of the table, or, the table being a plain
  object, a member that every object inherits; such a member is truthy, so it is taken
  as the theme although it has none of a theme's fields.
\<close>

definition object_prototype_keys :: "string list" where
  "object_prototype_keys =
     [''constructor'', ''__defineGetter__'', ''__defineSetter__'', ''hasOwnProperty'',
      ''__lookupGetter__'', ''__lookupSetter__'', ''isPrototypeOf'', ''propertyIsEnumerable'',
      ''toString'', ''valueOf'', ''__proto__'', ''toLocaleString'']"

datatype theme_val = Theme theme | Inherited

text \<open>\<open>CATEGORY_THEMES[meta.category] || CATEGORY_THEMES.general\<close>\<close>

definition theme_lookup :: "jsval \<Rightarrow> theme_val" where
  "theme_lookup category =
     (case map_of CATEGORY_THEMES (to_string category) of
        Some th \<Rightarrow> Theme th
      | None \<Rightarrow> if to_string category \<in> set object_prototype_keys then Inherited
                else Theme general_theme)"

subsection \<open>Decoration\<close>

definition dot :: "nat \<Rightarrow> nat \<Rightarrow> string" where
  \<open>dot x y =
     concat
      [''<circle cx="'',
       show_nat x,
       ''" cy="'',
       show_nat y,
       ''" r="0.8" fill="rgba(255,255,255,0.06)"/>'']\<close>

text \<open>\<open>generateDotGrid\<close>: \<open>x\<close> runs over 40, 80, .., 680 and \<open>y\<close> over 40, 80, .., 520.\<close>

definition generateDotGrid :: string where
  "generateDotGrid =
     concat (map (\<lambda>x. concat (map (\<lambda>y. dot x y) (map (\<lambda>k. 40 * k) [1..<14])))
                 (map (\<lambda>k. 40 * k) [1..<18]))"

definition visual_tree :: "theme \<Rightarrow> string" where
  \<open>visual_tree th =
     concat
      [''\<newline>'',
       ''      <!-- Binary tree visual -->\<newline>'',
       ''      <g opacity="0.15" transform="translate(480, 130)">\<newline>'',
       ''        <circle cx="80" cy="0" r="14" stroke="'',
       accent th,
       ''" stroke-width="1.5" fill="none"/>\<newline>'',
       ''        <line x1="70" y1="14" x2="40" y2="40" stroke="'',
       accent th,
       ''" stroke-width="1"/>\<newline>'',
       ''        <line x1="90" y1="14" x2="120" y2="40" stroke="'',
       accent th,
       ''" stroke-width="1"/>\<newline>'',
       ''        <circle cx="40" cy="54" r="12" stroke="'',
       accentAlt th,
       ''" stroke-width="1.5" fill="none"/>\<newline>'',
       ''        <circle cx="120" cy="54" r="12" stroke="'',
       accentAlt th,
       ''" stroke-width="1.5" fill="none"/>\<newline>'',
       ''        <line x1="32" y1="66" x2="16" y2="86" stroke="'',
       accentAlt th,
       ''" stroke-width="1"/>\<newline>'',
       ''        <line x1="48" y1="66" x2="64" y2="86" stroke="'',
       accentAlt th,
       ''" stroke-width="1"/>\<newline>'',
       ''        <line x1="112" y1="66" x2="96" y2="86" stroke="'',
       accentAlt th,
       ''" stroke-width="1"/>\<newline>'',
       ''        <line x1="128" y1="66" x2="144" y2="86" stroke="'',
       accentAlt th,
       ''" stroke-width="1"/>\<newline>'',
       ''        <circle cx="16" cy="98" r="10" stroke="'',
       accent th,
       ''" stroke-width="1" fill="none"/>\<newline>'',
       ''        <circle cx="64" cy="98" r="10" stroke="'',
       accent th,
       ''" stroke-width="1" fill="none"/>\<newline>'',
       ''        <circle cx="96" cy="98" r="10" stroke="'',
       accent th,
       ''" stroke-width="1" fill="none"/>\<newline>'',
       ''        <circle cx="144" cy="98" r="10" stroke="'',
       accent th,
       ''" stroke-width="1" fill="none"/>\<newline>'',
       ''      </g>'']\<close>

definition visual_stack :: "theme \<Rightarrow> string" where
  \<open>visual_stack th =
     concat
      [''\<newline>'',
       ''      <!-- Web stack layers -->\<newline>'',
       ''      <g opacity="0.15" transform="translate(500, 150)">\<newline>'',
       ''        <rect x="0" y="0" width="140" height="28" rx="6" stroke="#3b82f6" stroke-width="1.5" fill="none"/>\<newline>'',
       ''        <text x="70" y="18" text-anchor="middle" font-size="10" fill="#3b82f6">React / Frontend</text>\<newline>'',
       ''        <rect x="0" y="36" width="140" height="28" rx="6" stroke="#10b981" stroke-width="1.5" fill="none"/>\<newline>'',
       ''        <text x="70" y="54" text-anchor="middle" font-size="10" fill="#10b981">Express / API</text>\<newline>'',
       ''        <rect x="0" y="72" width="140" height="28" rx="6" stroke="#f59e0b" stroke-width="1.5" fill="none"/>\<newline>'',
       ''        <text x="70" y="90" text-anchor="middle" font-size="10" fill="#f59e0b">Node.js / Server</text>\<newline>'',
       ''        <rect x="0" y="108" width="140" height="28" rx="6" stroke="#e879f9" stroke-width="1.5" fill="none"/>\<newline>'',
       ''        <text x="70" y="126" text-anchor="middle" font-size="10" fill="#e879f9">MongoDB / DB</text>\<newline>'',
       ''        <line x1="70" y1="28" x2="70" y2="36" stroke="rgba(255,255,255,0.3)" stroke-width="1" stroke-dasharray="3 2"/>\<newline>'',
       ''        <line x1="70" y1="64" x2="70" y2="72" stroke="rgba(255,255,255,0.3)" stroke-width="1" stroke-dasharray="3 2"/>\<newline>'',
       ''        <line x1="70" y1="100" x2="70" y2="108" stroke="rgba(255,255,255,0.3)" stroke-width="1" stroke-dasharray="3 2"/>\<newline>'',
       ''      </g>'']\<close>

definition visual_architecture :: "theme \<Rightarrow> string" where
  \<open>visual_architecture th =
     concat
      [''\<newline>'',
       ''      <!-- System design diagram -->\<newline>'',
       ''      <g opacity="0.15" transform="translate(470, 140)">\<newline>'',
       ''        <rect x="50" y="0" width="80" height="24" rx="4" stroke="'',
       accent th,
       ''" stroke-width="1.5" fill="none"/>\<newline>'',
       ''        <text x="90" y="16" text-anchor="middle" font-size="9" fill="'',
       accent th,
       ''">Load Balancer</text>\<newline>'',
       ''        <line x1="70" y1="24" x2="40" y2="44" stroke="'',
       accent th,
       ''" stroke-width="1" stroke-dasharray="3 2"/>\<newline>'',
       ''        <line x1="110" y1="24" x2="140" y2="44" stroke="'',
       accent th,
       ''" stroke-width="1" stroke-dasharray="3 2"/>\<newline>'',
       ''        <rect x="10" y="44" width="60" height="22" rx="4" stroke="'',
       accentAlt th,
       ''" stroke-width="1" fill="none"/>\<newline>'',
       ''        <text x="40" y="58" text-anchor="middle" font-size="8" fill="'',
       accentAlt th,
       ''">Server 1</text>\<newline>'',
       ''        <rect x="110" y="44" width="60" height="22" rx="4" stroke="'',
       accentAlt th,
       ''" stroke-width="1" fill="none"/>\<newline>'',
       ''        <text x="140" y="58" text-anchor="middle" font-size="8" fill="'',
       accentAlt th,
       ''">Server 2</text>\<newline>'',
       ''        <line x1="40" y1="66" x2="90" y2="86" stroke="'',
       accentAlt th,
       ''" stroke-width="1" stroke-dasharray="3 2"/>\<newline>'',
       ''        <line x1="140" y1="66" x2="90" y2="86" stroke="'',
       accentAlt th,
       ''" stroke-width="1" stroke-dasharray="3 2"/>\<newline>'',
       ''        <rect x="55" y="86" width="70" height="22" rx="4" stroke="#10b981" stroke-width="1" fill="none"/>\<newline>'',
       ''        <text x="90" y="100" text-anchor="middle" font-size="8" fill="#10b981">Database</text>\<newline>'',
       ''      </g>'']\<close>

definition visual_table :: "theme \<Rightarrow> string" where
  \<open>visual_table th =
     concat
      [''\<newline>'',
       ''      <!-- Database table visual -->\<newline>'',
       ''      <g opacity="0.15" transform="translate(490, 150)">\<newline>'',
       ''        <rect x="0" y="0" width="150" height="24" rx="4 4 0 0" stroke="'',
       accent th,
       ''" stroke-width="1.5" fill="'',
       accent th,
       ''" fill-opacity="0.2"/>\<newline>'',
       ''        <text x="75" y="16" text-anchor="middle" font-size="9" fill="'',
       accent th,
       ''" font-weight="600">users_table</text>\<newline>'',
       ''        <rect x="0" y="24" width="150" height="80" rx="0 0 4 4" stroke="'',
       accent th,
       ''" stroke-width="1" fill="none"/>\<newline>'',
       ''        <text x="10" y="42" font-size="8" fill="'',
       accentAlt th,
       ''">id  |  name  |  email</text>\<newline>'',
       ''        <line x1="5" y1="48" x2="145" y2="48" stroke="rgba(255,255,255,0.1)" stroke-width="0.5"/>\<newline>'',
       ''        <text x="10" y="60" font-size="8" fill="rgba(255,255,255,0.4)">1   |  John  |  j@mail</text>\<newline>'',
       ''        <text x="10" y="74" font-size="8" fill="rgba(255,255,255,0.4)">2   |  Jane  |  j@mail</text>\<newline>'',
       ''        <text x="10" y="88" font-size="8" fill="rgba(255,255,255,0.4)">3   |  Alex  |  a@mail</text>\<newline>'',
       ''      </g>'']\<close>

definition visual_network :: "theme \<Rightarrow> string" where
  \<open>visual_network th =
     concat
      [''\<newline>'',
       ''      <!-- Network topology -->\<newline>'',
       ''      <g opacity="0.15" transform="translate(490, 150)">\<newline>'',
       ''        <circle cx="70" cy="30" r="16" stroke="'',
       accent th,
       ''" stroke-width="1.5" fill="none"/>\<newline>'',
       ''        <text x="70" y="34" text-anchor="middle" font-size="8" fill="'',
       accent th,
       ''">Router</text>\<newline>'',
       ''        <circle cx="20" cy="90" r="14" stroke="'',
       accentAlt th,
       ''" stroke-width="1" fill="none"/>\<newline>'',
       ''        <text x="20" y="94" text-anchor="middle" font-size="7" fill="'',
       accentAlt th,
       ''">PC1</text>\<newline>'',
       ''        <circle cx="70" cy="100" r="14" stroke="'',
       accentAlt th,
       ''" stroke-width="1" fill="none"/>\<newline>'',
       ''        <text x="70" y="104" text-anchor="middle" font-size="7" fill="'',
       accentAlt th,
       ''">PC2</text>\<newline>'',
       ''        <circle cx="120" cy="90" r="14" stroke="'',
       accentAlt th,
       ''" stroke-width="1" fill="none"/>\<newline>'',
       ''        <text x="120" y="94" text-anchor="middle" font-size="7" fill="'',
       accentAlt th,
       ''">PC3</text>\<newline>'',
       ''        <line x1="58" y1="42" x2="28" y2="78" stroke="'',
       accent th,
       ''" stroke-width="1"/>\<newline>'',
       ''        <line x1="70" y1="46" x2="70" y2="86" stroke="'',
       accent th,
       ''" stroke-width="1"/>\<newline>'',
       ''        <line x1="82" y1="42" x2="112" y2="78" stroke="'',
       accent th,
       ''" stroke-width="1"/>\<newline>'',
       ''      </g>'']\<close>

definition visual_process :: "theme \<Rightarrow> string" where
  \<open>visual_process th =
     concat
      [''\<newline>'',
       ''      <!-- OS process diagram -->\<newline>'',
       ''      <g opacity="0.15" transform="translate(490, 145)">\<newline>'',
       ''        <rect x="20" y="0" width="100" height="20" rx="3" stroke="'',
       accent th,
       ''" stroke-width="1" fill="none"/>\<newline>'',
       ''        <text x="70" y="14" text-anchor="middle" font-size="8" fill="'',
       accent th,
       ''">New</text>\<newline>'',
       ''        <line x1="70" y1="20" x2="70" y2="30" stroke="'',
       accent th,
       ''" stroke-width="1" marker-end="none"/>\<newline>'',
       ''        <text x="78" y="28" font-size="6" fill="'',
       accentAlt th,
       ''">admit</text>\<newline>'',
       ''        <rect x="20" y="30" width="100" height="20" rx="3" stroke="'',
       accentAlt th,
       ''" stroke-width="1.5" fill="'',
       accentAlt th,
       ''" fill-opacity="0.15"/>\<newline>'',
       ''        <text x="70" y="44" text-anchor="middle" font-size="8" fill="'',
       accentAlt th,
       ''">Ready</text>\<newline>'',
       ''        <line x1="70" y1="50" x2="70" y2="60" stroke="'',
       accentAlt th,
       ''" stroke-width="1"/>\<newline>'',
       ''        <text x="82" y="58" font-size="6" fill="'',
       accent th,
       ''">dispatch</text>\<newline>'',
       ''        <rect x="20" y="60" width="100" height="20" rx="3" stroke="#10b981" stroke-width="1.5" fill="#10b981" fill-opacity="0.15"/>\<newline>'',
       ''        <text x="70" y="74" text-anchor="middle" font-size="8" fill="#10b981">Running</text>\<newline>'',
       ''        <line x1="70" y1="80" x2="70" y2="90" stroke="#10b981" stroke-width="1"/>\<newline>'',
       ''        <text x="80" y="88" font-size="6" fill="#f59e0b">exit</text>\<newline>'',
       ''        <rect x="20" y="90" width="100" height="20" rx="3" stroke="#f59e0b" stroke-width="1" fill="none"/>\<newline>'',
       ''        <text x="70" y="104" text-anchor="middle" font-size="8" fill="#f59e0b">Terminated</text>\<newline>'',
       ''      </g>'']\<close>

definition visual_class :: "theme \<Rightarrow> string" where
  \<open>visual_class th =
     concat
      [''\<newline>'',
       ''      <!-- OOP class diagram -->\<newline>'',
       ''      <g opacity="0.15" transform="translate(490, 140)">\<newline>'',
       ''        <rect x="10" y="0" width="130" height="22" rx="4 4 0 0" stroke="'',
       accent th,
       ''" stroke-width="1.5" fill="'',
       accent th,
       ''" fill-opacity="0.2"/>\<newline>'',
       ''        <text x="75" y="15" text-anchor="middle" font-size="9" fill="'',
       accent th,
       ''" font-weight="600">Animal</text>\<newline>'',
       ''        <rect x="10" y="22" width="130" height="44" rx="0 0 0 0" stroke="'',
       accent th,
       ''" stroke-width="1" fill="none"/>\<newline>'',
       ''        <text x="18" y="38" font-size="8" fill="rgba(255,255,255,0.5)">- name: string</text>\<newline>'',
       ''        <line x1="10" y1="44" x2="140" y2="44" stroke="'',
       accent th,
       ''" stroke-width="0.5" opacity="0.3"/>\<newline>'',
       ''        <text x="18" y="58" font-size="8" fill="rgba(255,255,255,0.5)">+ speak(): void</text>\<newline>'',
       ''        <rect x="10" y="66" width="130" height="2" fill="none"/>\<newline>'',
       ''        <line x1="75" y1="66" x2="75" y2="80" stroke="'',
       accentAlt th,
       ''" stroke-width="1" stroke-dasharray="3 2"/>\<newline>'',
       ''        <text x="90" y="76" font-size="6" fill="'',
       accentAlt th,
       ''">extends</text>\<newline>'',
       ''        <rect x="10" y="80" width="130" height="22" rx="4 4 0 0" stroke="'',
       accentAlt th,
       ''" stroke-width="1" fill="'',
       accentAlt th,
       ''" fill-opacity="0.1"/>\<newline>'',
       ''        <text x="75" y="95" text-anchor="middle" font-size="9" fill="'',
       accentAlt th,
       ''">Dog</text>\<newline>'',
       ''        <rect x="10" y="102" width="130" height="22" rx="0 0 4 4" stroke="'',
       accentAlt th,
       ''" stroke-width="1" fill="none"/>\<newline>'',
       ''        <text x="18" y="117" font-size="8" fill="rgba(255,255,255,0.4)">+ speak(): "Woof"</text>\<newline>'',
       ''      </g>'']\<close>

definition visual_generic :: "theme \<Rightarrow> string" where
  \<open>visual_generic th =
     concat
      [''\<newline>'',
       ''      <!-- Generic CS visual -->\<newline>'',
       ''      <g opacity="0.12" transform="translate(510, 155)">\<newline>'',
       ''        <circle cx="50" cy="30" r="20" stroke="'',
       accent th,
       ''" stroke-width="1.5" fill="none"/>\<newline>'',
       ''        <text x="50" y="35" text-anchor="middle" font-size="16">'',
       icon th,
       ''</text>\<newline>'',
       ''        <circle cx="0" cy="90" r="16" stroke="'',
       accentAlt th,
       ''" stroke-width="1" fill="none"/>\<newline>'',
       ''        <circle cx="100" cy="90" r="16" stroke="'',
       accentAlt th,
       ''" stroke-width="1" fill="none"/>\<newline>'',
       ''        <line x1="38" y1="46" x2="10" y2="76" stroke="'',
       accent th,
       ''" stroke-width="1" stroke-dasharray="3 2"/>\<newline>'',
       ''        <line x1="62" y1="46" x2="90" y2="76" stroke="'',
       accent th,
       ''" stroke-width="1" stroke-dasharray="3 2"/>\<newline>'',
       ''        <line x1="16" y1="90" x2="84" y2="90" stroke="'',
       accentAlt th,
       ''" stroke-width="0.8" stroke-dasharray="3 2"/>\<newline>'',
       ''      </g>'']\<close>

definition generateVisualElements :: "theme \<Rightarrow> string" where
  "generateVisualElements th =
     (if visualType th = ''tree'' then visual_tree th
      else if visualType th = ''stack'' then visual_stack th
      else if visualType th = ''architecture'' then visual_architecture th
      else if visualType th = ''table'' then visual_table th
      else if visualType th = ''network'' then visual_network th
      else if visualType th = ''process'' then visual_process th
      else if visualType th = ''class'' then visual_class th
      else visual_generic th)"

subsection \<open>Concept cards\<close>

text \<open>
  \<open>concept.substring(0, 18)\<close>: the text a card shows.  Here and in the other cuts and
  length tests of the renderer the model counts characters as the program does on ASCII
  text.
\<close>

definition concept_label :: "string \<Rightarrow> string" where
  "concept_label concept = take 18 concept"

definition concept_card :: "theme \<Rightarrow> nat \<Rightarrow> string \<Rightarrow> string" where
  \<open>concept_card th i concept =
     (let cardWidth = 145; startX = 36; y = 152; gap = 8;
          x = startX + i * (cardWidth + gap);
          chipColors = [accent th, accentAlt th, ''#10b981'', ''#f59e0b''];
          color = chipColors ! (i mod length chipColors)
      in concat
          [''\<newline>'',
           ''    <g filter="url(#softShadow)">\<newline>'',
           ''      <rect x="'',
           show_nat x,
           ''" y="'',
           show_nat y,
           ''" width="'',
           show_nat cardWidth,
           ''" height="48" rx="8" fill="url(#glassCard)" stroke="'',
           color,
           ''" stroke-width="0.8" stroke-opacity="0.4"/>\<newline>'',
           ''    </g>\<newline>'',
           ''    <circle cx="'',
           show_nat (x + 18),
           ''" cy="'',
           show_nat (y + 24),
           ''" r="6" fill="'',
           color,
           ''" opacity="0.25"/>\<newline>'',
           ''    <text x="'',
           show_nat (x + 18),
           ''" y="'',
           show_nat (y + 27),
           ''" text-anchor="middle" font-size="8" fill="'',
           color,
           ''">'',
           [CHR 0xE2, CHR 0x9C, CHR 0xA6],
           ''</text>\<newline>'',
           ''    <text x="'',
           show_nat (x + 32),
           ''" y="'',
           show_nat (y + 21),
           ''" font-family="'Segoe UI',Inter,system-ui,sans-serif" font-size="10" fill="white" font-weight="600">\<newline>'',
           ''      '',
           concept_label concept,
           ''\<newline>'',
           ''    </text>\<newline>'',
           ''    <text x="'',
           show_nat (x + 32),
           ''" y="'',
           show_nat (y + 36),
           ''" font-family="'Segoe UI',Inter,system-ui,sans-serif" font-size="8" fill="rgba(255,255,255,0.4)">\<newline>'',
           ''      Concept '',
           show_nat (i + 1),
           ''\<newline>'',
           ''    </text>''])\<close>

definition generateConceptCards :: "string list \<Rightarrow> theme \<Rightarrow> string" where
  \<open>generateConceptCards concepts th =
     join ''\<newline>'' (map (\<lambda>(i, concept). concept_card th i concept) (enumerate 0 concepts))\<close>

subsection \<open>Code block\<close>

text \<open>\<open>s.split(sep)\<close> for a separator that is not empty.\<close>

fun split_go :: "string \<Rightarrow> nat \<Rightarrow> string \<Rightarrow> string \<Rightarrow> string list" where
  "split_go sep skip acc [] = [rev acc]"
| "split_go sep skip acc (c # cs) =
     (if 0 < skip then split_go sep (skip - 1) acc cs
      else if starts_with (c # cs) sep then rev acc # split_go sep (length sep - 1) [] cs
      else split_go sep 0 (c # acc) cs)"

definition split_on :: "string \<Rightarrow> string \<Rightarrow> string list" where
  "split_on sep s = split_go sep 0 [] s"

definition not_blank :: "string \<Rightarrow> bool" where
  "not_blank l = (0 < length (trim l))"

text \<open>\<open>s.replace(/;\s*/g, ';\n')\<close>\<close>

function break_after_semicolons :: "string \<Rightarrow> string" where
  "break_after_semicolons [] = []"
| "break_after_semicolons (c # cs) =
     (if c = CHR '';'' then CHR '';'' # CHR 0x0A # break_after_semicolons (dropWhile is_ws cs)
      else c # break_after_semicolons cs)"
  by pat_completeness auto
termination
  by (relation "measure length") (auto simp: le_imp_less_Suc length_dropWhile_le)

definition repeat :: "string \<Rightarrow> nat \<Rightarrow> string" where
  "repeat s n = concat (replicate n s)"

text \<open>The loop that indents the parts by the braces they open and close.\<close>

definition indent_step :: "nat \<times> string list \<Rightarrow> string \<Rightarrow> nat \<times> string list" where
  "indent_step st part =
     (let indent = fst st; codeLines = snd st;
          trimmed = trim part;
          indent1 = (if starts_with trimmed ''}'' then indent - 1 else indent);
          codeLines1 = codeLines @ [repeat ''  '' indent1 @ trimmed];
          indent2 = (if ends_with trimmed ''{'' then indent1 + 1 else indent1)
      in (indent2, codeLines1))"

text \<open>The loop that wraps words into lines of about 50 characters.\<close>

definition wrap_step :: "string \<times> string list \<Rightarrow> string \<Rightarrow> string \<times> string list" where
  "wrap_step st word =
     (let currentLine = fst st; codeLines = snd st in
      if 50 < length (currentLine @ '' '' @ word) \<and> 0 < length currentLine
      then (''  '' @ word, codeLines @ [currentLine])
      else ((if currentLine \<noteq> [] then currentLine @ '' '' @ word else word), codeLines))"

definition rewrap :: "string \<Rightarrow> string list" where
  "rewrap singleLine =
     (let parts = filter not_blank
            (split_on [CHR 0x0A]
              (break_after_semicolons
                (replace_char (CHR ''}'') [CHR 0x0A, CHR ''}'', CHR 0x0A]
                  (replace_char (CHR ''{'') [CHR ''{'', CHR 0x0A] singleLine))))
      in if 1 < length parts then snd (foldl indent_step (0, []) parts)
         else (let st = foldl wrap_step ([], []) (split_on '' '' singleLine);
                   currentLine = fst st; codeLines = snd st
               in if currentLine \<noteq> [] then codeLines @ [currentLine] else codeLines))"

text \<open>The lines of the code panel: at most ten.\<close>

definition code_lines :: "string \<Rightarrow> string list" where
  "code_lines codeLine =
     (let codeLines = filter not_blank (split_on [CHR 0x5C, CHR ''n''] codeLine);
          codeLines1 =
            (if length codeLines \<le> 1 \<and> 50 < length codeLine
             then rewrap (case codeLines of [] \<Rightarrow> codeLine | l # _ \<Rightarrow> l)
             else codeLines)
      in take 10 codeLines1)"

definition code_line_number :: "nat \<Rightarrow> string" where
  \<open>code_line_number i =
     concat
      [''<text x="46" y="'',
       show_nat (274 + i * 18),
       ''" font-family="'Cascadia Code',monospace" font-size="9" fill="rgba(255,255,255,0.2)">'',
       show_nat (i + 1),
       ''</text>'']\<close>

definition code_line_text :: "theme \<Rightarrow> nat \<Rightarrow> string \<Rightarrow> string" where
  \<open>code_line_text th i line =
     concat
      [''<text x="64" y="'',
       show_nat (274 + i * 18),
       ''" font-family="'Cascadia Code','Fira Code',monospace" font-size="11" fill="'',
       accentAlt th,
       ''">'',
       line,
       ''</text>'']\<close>

definition generateCodeBlock :: "string \<Rightarrow> theme \<Rightarrow> string" where
  \<open>generateCodeBlock codeLine th =
     (let codeLines = code_lines codeLine in
      concat
          [''\<newline>'',
           ''    <!-- Code snippet block -->\<newline>'',
           ''    <text x="40" y="225" font-family="'Segoe UI',Inter,system-ui,sans-serif" font-size="11" fill="rgba(255,255,255,0.45)" font-weight="600" letter-spacing="1.5">\<newline>'',
           ''      CODE SNIPPET\<newline>'',
           ''    </text>\<newline>'',
           ''    <g filter="url(#softShadow)">\<newline>'',
           ''      <rect x="36" y="234" width="628" height="'',
           show_nat (24 + length codeLines * 18),
           ''" rx="8" fill="rgba(0,0,0,0.4)" stroke="'',
           accent th,
           ''" stroke-width="0.6" stroke-opacity="0.3"/>\<newline>'',
           ''    </g>\<newline>'',
           ''    <!-- Terminal dots -->\<newline>'',
           ''    <circle cx="50" cy="246" r="3.5" fill="#ff5f57"/>\<newline>'',
           ''    <circle cx="62" cy="246" r="3.5" fill="#febc2e"/>\<newline>'',
           ''    <circle cx="74" cy="246" r="3.5" fill="#28c840"/>\<newline>'',
           ''    <text x="100" y="249" font-family="'Cascadia Code',monospace" font-size="8" fill="rgba(255,255,255,0.3)">code.js</text>\<newline>'',
           ''    <line x1="36" y1="256" x2="664" y2="256" stroke="rgba(255,255,255,0.08)" stroke-width="0.5"/>\<newline>'',
           ''    <!-- Line numbers -->\<newline>'',
           ''    '']
      @ join ''\<newline>    '' (map (\<lambda>(i, l). code_line_number i) (enumerate 0 codeLines))
      @ concat
          [''\<newline>'',
           ''    <!-- Code content -->\<newline>'',
           ''    '']
      @ join ''\<newline>    '' (map (\<lambda>(i, line). code_line_text th i line) (enumerate 0 codeLines)))\<close>

subsection \<open>Tip banner and document\<close>

definition generateTipSection :: "string \<Rightarrow> string" where
  \<open>generateTipSection tip =
     concat
      [''\<newline>'',
       ''    <!-- Interview Tip -->\<newline>'',
       ''    <g filter="url(#softShadow)">\<newline>'',
       ''      <rect x="36" y="460" width="628" height="48" rx="10" fill="rgba(251,191,36,0.06)" stroke="rgba(251,191,36,0.2)" stroke-width="1"/>\<newline>'',
       ''    </g>\<newline>'',
       ''    <text x="56" y="480" font-family="'Segoe UI',Inter,system-ui,sans-serif" font-size="11" fill="#fbbf24" font-weight="700">\<newline>'',
       ''      '',
       [CHR 0xF0, CHR 0x9F, CHR 0x92, CHR 0xA1],
       '' INTERVIEW TIP\<newline>'',
       ''    </text>\<newline>'',
       ''    <text x="56" y="498" font-family="'Segoe UI',Inter,system-ui,sans-serif" font-size="11" fill="rgba(255,255,255,0.65)">\<newline>'',
       ''      '',
       tip,
       ''\<newline>'',
       ''    </text>'']\<close>

definition svg_document :: "theme \<Rightarrow> string \<Rightarrow> string \<Rightarrow> string \<Rightarrow> string \<Rightarrow> string \<Rightarrow> string \<Rightarrow> string \<Rightarrow> string" where
  \<open>svg_document th visualElements categoryLabel safeTitle safeSubtitle conceptCards codeBlock tipSection =
     concat
      [''<svg xmlns="http://www.w3.org/2000/svg" width="700" height="560" viewBox="0 0 700 560">\<newline>'',
       ''  <defs>\<newline>'',
       ''    <linearGradient id="bgMain" x1="0%" y1="0%" x2="100%" y2="100%">\<newline>'',
       ''      <stop offset="0%" style="stop-color:'',
       gradient th ! 0,
       ''"/>\<newline>'',
       ''      <stop offset="50%" style="stop-color:'',
       gradient th ! 1,
       ''"/>\<newline>'',
       ''      <stop offset="100%" style="stop-color:'',
       gradient th ! 2,
       ''"/>\<newline>'',
       ''    </linearGradient>\<newline>'',
       ''    <linearGradient id="accentGrad" x1="0%" y1="0%" x2="100%" y2="100%">\<newline>'',
       ''      <stop offset="0%" style="stop-color:'',
       accent th,
       ''"/>\<newline>'',
       ''      <stop offset="100%" style="stop-color:'',
       accentAlt th,
       ''"/>\<newline>'',
       ''    </linearGradient>\<newline>'',
       ''    <linearGradient id="glassCard" x1="0%" y1="0%" x2="0%" y2="100%">\<newline>'',
       ''      <stop offset="0%" style="stop-color:rgba(255,255,255,0.12)"/>\<newline>'',
       ''      <stop offset="100%" style="stop-color:rgba(255,255,255,0.04)"/>\<newline>'',
       ''    </linearGradient>\<newline>'',
       ''    <filter id="glow">\<newline>'',
       ''      <feGaussianBlur stdDeviation="8" result="coloredBlur"/>\<newline>'',
       ''      <feMerge><feMergeNode in="coloredBlur"/><feMergeNode in="SourceGraphic"/></feMerge>\<newline>'',
       ''    </filter>\<newline>'',
       ''    <filter id="softShadow">\<newline>'',
       ''      <feDropShadow dx="0" dy="4" stdDeviation="6" flood-color="rgba(0,0,0,0.3)"/>\<newline>'',
       ''    </filter>\<newline>'',
       ''    <clipPath id="roundClip"><rect width="700" height="560" rx="20"/></clipPath>\<newline>'',
       ''  </defs>\<newline>'',
       ''\<newline>'',
       ''  <!-- Background -->\<newline>'',
       ''  <g clip-path="url(#roundClip)">\<newline>'',
       ''    <rect width="700" height="560" fill="url(#bgMain)"/>\<newline>'',
       ''\<newline>'',
       ''    <!-- Ambient glow orbs -->\<newline>'',
       ''    <circle cx="100" cy="80" r="120" fill="'',
       accent th,
       ''" opacity="0.06"/>\<newline>'',
       ''    <circle cx="600" cy="400" r="140" fill="'',
       accentAlt th,
       ''" opacity="0.05"/>\<newline>'',
       ''    <circle cx="350" cy="240" r="200" fill="'',
       accent th,
       ''" opacity="0.03"/>\<newline>'',
       ''\<newline>'',
       ''    <!-- Dot grid pattern -->\<newline>'',
       ''    '',
       generateDotGrid,
       ''\<newline>'',
       ''\<newline>'',
       ''    <!-- Category-specific visual elements -->\<newline>'',
       ''    '',
       visualElements,
       ''\<newline>'',
       ''\<newline>'',
       ''    <!-- Header section -->\<newline>'',
       ''    <g filter="url(#softShadow)">\<newline>'',
       ''      <rect x="24" y="20" width="652" height="90" rx="14" fill="url(#glassCard)" stroke="rgba(255,255,255,0.1)" stroke-width="1"/>\<newline>'',
       ''    </g>\<newline>'',
       ''    <text x="56" y="52" font-family="'Segoe UI',Inter,system-ui,sans-serif" font-size="14" fill="'',
       accent th,
       ''" font-weight="600" letter-spacing="2">\<newline>'',
       ''      '',
       icon th,
       '' '',
       categoryLabel,
       '' '',
       [CHR 0xE2, CHR 0x80, CHR 0xA2],
       '' PLACEMENT PREP\<newline>'',
       ''    </text>\<newline>'',
       ''    <text x="56" y="82" font-family="'Segoe UI',Inter,system-ui,sans-serif" font-size="26" font-weight="700" fill="white">\<newline>'',
       ''      '',
       safeTitle,
       ''\<newline>'',
       ''    </text>\<newline>'',
       ''    <text x="56" y="100" font-family="'Segoe UI',Inter,system-ui,sans-serif" font-size="13" fill="rgba(255,255,255,0.6)">\<newline>'',
       ''      '',
       safeSubtitle,
       ''\<newline>'',
       ''    </text>\<newline>'',
       ''\<newline>'',
       ''    <!-- Accent stripe -->\<newline>'',
       ''    <rect x="24" y="110" width="652" height="3" rx="1.5" fill="url(#accentGrad)" opacity="0.6"/>\<newline>'',
       ''\<newline>'',
       ''    <!-- Key Concepts Section -->\<newline>'',
       ''    <text x="40" y="140" font-family="'Segoe UI',Inter,system-ui,sans-serif" font-size="11" fill="rgba(255,255,255,0.45)" font-weight="600" letter-spacing="1.5">\<newline>'',
       ''      KEY CONCEPTS\<newline>'',
       ''    </text>\<newline>'',
       ''    '',
       conceptCards,
       ''\<newline>'',
       ''\<newline>'',
       ''    <!-- Code Block -->\<newline>'',
       ''    '',
       codeBlock,
       ''\<newline>'',
       ''\<newline>'',
       ''    <!-- Interview Tip -->\<newline>'',
       ''    '',
       tipSection,
       ''\<newline>'',
       ''\<newline>'',
       ''    <!-- Footer -->\<newline>'',
       ''    <rect x="24" y="520" width="652" height="28" rx="8" fill="rgba(255,255,255,0.04)"/>\<newline>'',
       ''    <text x="350" y="539" text-anchor="middle" font-family="'Segoe UI',Inter,system-ui,sans-serif" font-size="10" fill="rgba(255,255,255,0.3)" letter-spacing="1">\<newline>'',
       ''      CANTILEVER AI TUTOR '',
       [CHR 0xE2, CHR 0x80, CHR 0xA2],
       '' POWERED BY LANGGRAPH + GROQ + LLAMA 3.3\<newline>'',
       ''    </text>\<newline>'',
       ''  </g>\<newline>'',
       ''</svg>'']\<close>

text \<open>\<open>toUpperCase\<close> on ASCII letters; letters outside ASCII are left as they are.\<close>

definition upper_ascii :: "char \<Rightarrow> char" where
  "upper_ascii c =
     (if of_char (CHR ''a'') \<le> (of_char c :: nat) \<and> (of_char c :: nat) \<le> of_char (CHR ''z'')
      then char_of ((of_char c :: nat) - 32) else c)"

text \<open>\<open>(meta.keyConcepts || []).map(c => escapeXml(c))\<close>: only an array has \<open>map\<close>.\<close>

fun mapE :: "('a \<Rightarrow> exn + 'b) \<Rightarrow> 'a list \<Rightarrow> exn + 'b list" where
  "mapE f [] = Inr []"
| "mapE f (x # xs) = bindE (f x) (\<lambda>y. bindE (mapE f xs) (\<lambda>ys. Inr (y # ys)))"

definition escaped_concepts :: "jsval \<Rightarrow> exn + string list" where
  "escaped_concepts keyConcepts =
     (case js_or keyConcepts (Arr []) of
        Arr cs \<Rightarrow> mapE escapeXml_val cs
      | _ \<Rightarrow> Inl (TypeError ''(meta.keyConcepts || []).map is not a function''))"

text \<open>
  \<open>generateTopicSVG\<close>.  The metadata is whatever \<open>JSON.parse\<close> returned, so every read
  and every method call may throw; the steps are in the order of the source.  With an
  inherited member for a theme, the first interpolation of the document,
  \<open>theme.gradient[0]\<close>, throws.
\<close>

definition generateTopicSVG :: "jsval \<Rightarrow> exn + string" where
  \<open>generateTopicSVG meta =
     bindE (get_prop meta ''category'') (\<lambda>category.
     let theme = theme_lookup category in
     bindE (get_prop meta ''title'') (\<lambda>title.
     bindE (escapeXml_val (js_or title (Str ''Topic''))) (\<lambda>safeTitle.
     bindE (get_prop meta ''subtitle'') (\<lambda>subtitle.
     bindE (escapeXml_val (js_or subtitle (Str []))) (\<lambda>safeSubtitle.
     bindE (get_prop meta ''keyConcepts'') (\<lambda>keyConcepts.
     bindE (escaped_concepts keyConcepts) (\<lambda>concepts.
     bindE (get_prop meta ''codeSnippet'') (\<lambda>codeSnippet.
     bindE (as_string ''(meta.codeSnippet || "").substring'' (js_or codeSnippet (Str []))) (\<lambda>snippet.
     let codeLine = escapeXml (take 300 snippet) in
     bindE (get_prop meta ''interviewTip'') (\<lambda>interviewTip.
     bindE (as_string ''(meta.interviewTip || "").substring'' (js_or interviewTip (Str []))) (\<lambda>tipText.
     let tip = escapeXml (take 80 tipText) in
     (case theme of
        Inherited \<Rightarrow> Inl (TypeError ''Cannot read properties of undefined (reading 0)'')
      | Theme th \<Rightarrow>
          (let visualElements = generateVisualElements th;
               conceptCards = generateConceptCards concepts th;
               codeBlock = (if codeLine \<noteq> [] then generateCodeBlock codeLine th else []);
               tipSection = (if tip \<noteq> [] then generateTipSection tip else [])
           in bindE (as_string ''(meta.category || "general").toUpperCase''
                       (js_or category (Str ''general''))) (\<lambda>cat.
                Inr (svg_document th visualElements (escapeXml (map upper_ascii cat))
                       safeTitle safeSubtitle conceptCards codeBlock tipSection)))))))))))))))\<close>

section \<open>Media engine (media stage), \<open>server/agents/mediaEngine.js\<close>\<close>

text \<open>\<open>raw.match(/\{[\s\S]*\}/)\<close>: from the first \<open>{\<close> to the last \<open>}\<close> after it.\<close>

definition json_match :: "string \<Rightarrow> string option" where
  "json_match raw =
     (let r = dropWhile (\<lambda>c. c \<noteq> CHR ''{'') raw in
      if r = [] then None
      else (let body = rev (dropWhile (\<lambda>c. c \<noteq> CHR ''}'') (rev (tl r)))
            in if body = [] then None else Some (CHR ''{'' # body)))"

text \<open>The metadata that the inner \<open>catch\<close> substitutes.\<close>

definition default_metadata :: "state \<Rightarrow> jsval" where
  "default_metadata s =
     Obj [(''title'', topic_val s),
          (''subtitle'', Str ''CSE Placement Preparation''),
          (''keyConcepts'', Arr [Str ''Concept 1'', Str ''Concept 2'', Str ''Concept 3'', Str ''Concept 4'']),
          (''category'', Str ''general''),
          (''codeSnippet'', Str []),
          (''interviewTip'', Str ''Understand the fundamentals thoroughly.'')]"

text \<open>
  The inner \<open>try\<close>: \<open>content?.trim() || "{}"\<close>, the match, \<open>JSON.parse\<close>; on an exception
  the default.
\<close>

definition metadata_text :: "string option \<Rightarrow> string" where
  "metadata_text content =
     (let raw = (case content of
                   None \<Rightarrow> ''{}''
                 | Some c \<Rightarrow> if trim c = [] then ''{}'' else trim c)
      in case json_match raw of Some m \<Rightarrow> m | None \<Rightarrow> raw)"

definition image_metadata :: "world \<Rightarrow> state \<Rightarrow> string option \<Rightarrow> jsval" where
  "image_metadata w s content =
     (case json_parse w (metadata_text content) of
        Inr m \<Rightarrow> m
      | Inl e \<Rightarrow> default_metadata s)"

subsection \<open>Encoding and storage\<close>

text \<open>
  \<open>Buffer.from(svgContent).toString('base64')\<close>: the bytes of the text, three at a time,
  as four characters of the base64 alphabet, padded with \<open>=\<close>.
\<close>

definition b64_char :: "nat \<Rightarrow> char" where
  "b64_char n = ''ABCDEFGHIJKLMNOPQRSTUVWXYZabcdefghijklmnopqrstuvwxyz0123456789+/'' ! n"

fun base64_bytes :: "nat list \<Rightarrow> string" where
  "base64_bytes [] = []"
| "base64_bytes [a] = [b64_char (a div 4), b64_char (a mod 4 * 16), CHR ''='', CHR ''='']"
| "base64_bytes [a, b] =
     [b64_char (a div 4), b64_char (a mod 4 * 16 + b div 16), b64_char (b mod 16 * 4), CHR ''='']"
| "base64_bytes (a # b # c # rest) =
     [b64_char (a div 4), b64_char (a mod 4 * 16 + b div 16),
      b64_char (b mod 16 * 4 + c div 64), b64_char (c mod 64)] @ base64_bytes rest"

definition base64 :: "string \<Rightarrow> string" where
  "base64 s = base64_bytes (map of_char s)"

definition data_uri :: "string \<Rightarrow> string" where
  "data_uri svgContent = ''data:image/svg+xml;base64,'' @ base64 svgContent"

text \<open>The file system: a map from paths to contents.  A write may be refused.\<close>

type_synonym fs = "string \<rightharpoonup> string"

definition writeFileSync :: "world \<Rightarrow> fs \<Rightarrow> string \<Rightarrow> string \<Rightarrow> exn + fs" where
  "writeFileSync w files path data =
     (if disk_ok w then Inr (files(path \<mapsto> data))
      else Inl (IoError ''EACCES: permission denied''))"

definition on_vercel :: "world \<Rightarrow> bool" where
  "on_vercel w = (case VERCEL w of None \<Rightarrow> False | Some v \<Rightarrow> v \<noteq> [])"

definition imageFileName :: "world \<Rightarrow> string" where
  "imageFileName w = ''topic-'' @ show_nat (now w) @ ''.svg''"

definition imagePath :: "world \<Rightarrow> string" where
  "imagePath w = publicDir w @ ''/'' @ imageFileName w"

subsection \<open>The two sub-tasks and the stage\<close>

text \<open>The body of the first \<open>try\<close> block: the image and the file system after it.\<close>

definition visual_try :: "world \<Rightarrow> fs \<Rightarrow> state \<Rightarrow> exn + string \<times> fs" where
  "visual_try w files s =
     bindE (visual_reply w) (\<lambda>content.
       let imageMetadata = image_metadata w s content in
       bindE (generateTopicSVG imageMetadata) (\<lambda>svgContent.
         if on_vercel w then Inr (data_uri svgContent, files)
         else bindE (writeFileSync w files (imagePath w) svgContent) (\<lambda>files'.
                Inr (''/public/'' @ imageFileName w, files'))))"

text \<open>The body of the second \<open>try\<close> block: \<open>content?.trim() || null\<close>.\<close>

definition narration_try :: "world \<Rightarrow> state \<Rightarrow> exn + string option" where
  "narration_try w s =
     bindE (narration_reply w) (\<lambda>content.
       Inr (case content of
              None \<Rightarrow> None
            | Some c \<Rightarrow> if trim c = [] then None else Some (trim c)))"

definition has_markdown :: "state \<Rightarrow> bool" where
  "has_markdown s = (case markdown s of None \<Rightarrow> False | Some m \<Rightarrow> m \<noteq> [])"

definition visual_failed :: "world \<Rightarrow> fs \<Rightarrow> state \<Rightarrow> bool" where
  "visual_failed w files s = (case visual_try w files s of Inl e \<Rightarrow> True | Inr r \<Rightarrow> False)"

definition narration_failed :: "world \<Rightarrow> state \<Rightarrow> bool" where
  "narration_failed w s = (case narration_try w s of Inl e \<Rightarrow> True | Inr r \<Rightarrow> False)"

definition runMediaEngine :: "world \<Rightarrow> fs \<Rightarrow> state \<Rightarrow> state \<times> fs" where
  "runMediaEngine w files s =
     (if rejected s \<or> \<not> has_markdown s then (s, files)
      else
        (let a = (case visual_try w files s of
                    Inr (url, files') \<Rightarrow> (Some url, False, files')
                  | Inl e \<Rightarrow> (None, True, files));
             b = (case narration_try w s of
                    Inr t \<Rightarrow> (t, False)
                  | Inl e \<Rightarrow> (None, True))
         in (s\<lparr>imageUrl := fst a,
               audioText := fst b,
               mediaFailed := (fst (snd a) \<or> snd b)\<rparr>,
             snd (snd a))))"

section \<open>Orchestrator, \<open>server/agents/graph.js\<close>\<close>

definition routeAfterSupervisor :: "state \<Rightarrow> string" where
  "routeAfterSupervisor s = (if rejected s then ''end'' else ''researcher'')"

text \<open>
  Every channel of the graph has the reducer \<open>(a, b) => b ?? a\<close>: what a node returns
  replaces the channel's value unless it is \<open>null\<close> or \<open>undefined\<close>.
\<close>

definition keep_or :: "'a option \<Rightarrow> 'a option \<Rightarrow> 'a option" where
  "keep_or a b = (case b of None \<Rightarrow> a | Some v \<Rightarrow> Some v)"

definition merge_state :: "state \<Rightarrow> state \<Rightarrow> state" where
  "merge_state a b =
     \<lparr>query = query b,
      duration = duration b,
      topic = keep_or (topic a) (topic b),
      rejected = rejected b,
      rejectionReason = keep_or (rejectionReason a) (rejectionReason b),
      classification = (if nullish (classification b) then classification a else classification b),
      markdown = keep_or (markdown a) (markdown b),
      imageUrl = keep_or (imageUrl a) (imageUrl b),
      audioText = keep_or (audioText a) (audioText b),
      mediaFailed = mediaFailed b\<rparr>"

definition channel_defaults :: state where
  "channel_defaults =
     \<lparr>query = [], duration = 3, topic = None, rejected = False, rejectionReason = None,
      classification = Null, markdown = None, imageUrl = None, audioText = None,
      mediaFailed = False\<rparr>"

text \<open>
  One run of the compiled graph: supervisor, then the conditional edge, then researcher
  and media engine.
\<close>

definition invoke :: "world \<Rightarrow> fs \<Rightarrow> state \<Rightarrow> state \<times> fs" where
  "invoke w files input =
     (let s0 = merge_state channel_defaults input;
          s1 = merge_state s0 (runSupervisor w s0)
      in if routeAfterSupervisor s1 = ''end'' then (s1, files)
         else (let s2 = merge_state s1 (runResearcher w s1);
                   r = runMediaEngine w files s2
               in (merge_state s2 (fst r), snd r)))"


section \<open>Example runs\<close>

text \<open>
  A table of replies stands for \<open>JSON.parse\<close> in the examples: the texts it knows parse
  to the values beside them, every other text is a syntax error.
\<close>

definition accept_text :: string where
  \<open>accept_text =
     ''{"classification":"placement_topic","reason":"data structures","detectedTopic":"Binary Search Trees"}''\<close>

definition accept_json :: jsval where
  "accept_json =
     Obj [(''classification'', Str ''placement_topic''),
          (''reason'', Str ''data structures''),
          (''detectedTopic'', Str ''Binary Search Trees'')]"

definition spam_text :: string where
  \<open>spam_text = ''{"classification":"spam","reason":"unsolicited"}''\<close>

definition spam_json :: jsval where
  "spam_json = Obj [(''classification'', Str ''spam''), (''reason'', Str ''unsolicited'')]"

definition numeric_title_text :: string where
  \<open>numeric_title_text = ''{"title":7}''\<close>

definition numeric_title_json :: jsval where
  "numeric_title_json = Obj [(''title'', Num 7)]"

text \<open>A reply that is JSON, and an object, but has none of the expected fields.\<close>

definition shapeless_text :: string where
  \<open>shapeless_text = ''{}''\<close>

definition shapeless_json :: jsval where
  "shapeless_json = Obj []"

definition example_parse :: "string \<Rightarrow> exn + jsval" where
  "example_parse t =
     (case map_of [(accept_text, accept_json),
                   (spam_text, spam_json),
                   (numeric_title_text, numeric_title_json),
                   (shapeless_text, shapeless_json)] t of
        Some v \<Rightarrow> Inr v
      | None \<Rightarrow> Inl (SyntaxError ''Unexpected token''))"

text \<open>
  A serverless run in which the classifier accepts, the content arrives, the visual
  reply is not JSON and the narration arrives.
\<close>

definition example_world :: world where
  "example_world =
     \<lparr>classifier_reply = Inr accept_text,
      content_reply = Inr ''## Binary search trees'',
      visual_reply = Inr (Some ''Sorry, no metadata today.''),
      narration_reply = Inr (Some ''A binary search tree keeps its keys in order.''),
      json_parse = example_parse,
      VERCEL = Some ''1'',
      now = 1700000000000,
      publicDir = ''/srv/app/server/public'',
      disk_ok = True\<rparr>"

definition example_state :: state where
  "example_state = createInitialState ''explain bst'' (Fin 3)"

text \<open>The state after the content stage of that run.\<close>

definition example_content_state :: state where
  "example_content_state =
     example_state\<lparr>topic := Some ''explain bst'',
                    classification := Str ''placement_topic'',
                    markdown := Some ''## Binary search trees''\<rparr>"

section \<open>Specification functions\<close>

text \<open>
  The duration that the initial state stores, as a function of the number read from the
  request: \<open>NaN\<close> and 0 give the default 3, any other integer is clamped to 2..5.
\<close>

definition stored_duration :: "jsnum \<Rightarrow> int" where
  "stored_duration x =
     (case x of
        NaN \<Rightarrow> 3
      | Fin n \<Rightarrow> if n = 0 then 3 else if n < 2 then 2 else if 5 < n then 5 else n)"

text \<open>
  The document that the renderer produces from the default metadata: the general theme,
  the topic for a title (\<open>Topic\<close> when there is none), no code panel.
\<close>

definition default_title :: "state \<Rightarrow> string" where
  "default_title s = (case topic s of None \<Rightarrow> ''Topic'' | Some t \<Rightarrow> if t = [] then ''Topic'' else t)"

definition default_svg :: "state \<Rightarrow> string" where
  "default_svg s =
     svg_document general_theme (generateVisualElements general_theme) ''GENERAL''
       (escapeXml (default_title s)) ''CSE Placement Preparation''
       (generateConceptCards [''Concept 1'', ''Concept 2'', ''Concept 3'', ''Concept 4''] general_theme)
       []
       (generateTipSection ''Understand the fundamentals thoroughly.'')"

text \<open>The escaping of one character, for comparison with \<open>escapeXml\<close>.\<close>

definition escape_char :: "char \<Rightarrow> string" where
  \<open>escape_char c =
     (if c = CHR ''&'' then ''&amp;''
      else if c = CHR ''<'' then ''&lt;''
      else if c = CHR ''>'' then ''&gt;''
      else if c = CHR 0x22 then ''&quot;''
      else if c = CHR 0x27 then ''&apos;''
      else [c])\<close>


section \<open>Basic facts\<close>

lemma bindE_Inl [simp]: "bindE (Inl e) f = Inl e"
  by (simp add: bindE_def)

lemma bindE_Inr [simp]: "bindE (Inr v) f = f v"
  by (simp add: bindE_def)

lemma keep_or_simps [simp]: "keep_or a None = a" "keep_or a (Some v) = Some v"
  by (simp_all add: keep_or_def)

lemma merge_state_sel [simp]:
  "rejected (merge_state a b) = rejected b"
  "markdown (merge_state a b) = keep_or (markdown a) (markdown b)"
  "query (merge_state a b) = query b"
  "duration (merge_state a b) = duration b"
  "mediaFailed (merge_state a b) = mediaFailed b"
  "classification (merge_state a b) =
     (if nullish (classification b) then classification a else classification b)"
  by (simp_all add: merge_state_def)

lemma trim_accept_text: "trim accept_text = accept_text"
  by (simp add: accept_text_def trim_def is_ws_def)

lemma fences_accept_text: "strip_close_fence (strip_open_fence accept_text) = accept_text"
  by (simp add: accept_text_def strip_open_fence_def strip_close_fence_def starts_with_def
      ends_with_def)

lemma trim_spam_text: "trim spam_text = spam_text"
  by (simp add: spam_text_def trim_def is_ws_def)

lemma fences_spam_text: "strip_close_fence (strip_open_fence spam_text) = spam_text"
  by (simp add: spam_text_def strip_open_fence_def strip_close_fence_def starts_with_def
      ends_with_def)

lemma example_parse_simps:
  "example_parse accept_text = Inr accept_json"
  "example_parse spam_text = Inr spam_json"
  "example_parse numeric_title_text = Inr numeric_title_json"
  "example_parse shapeless_text = Inr shapeless_json"
  by (simp_all add: example_parse_def accept_text_def spam_text_def numeric_title_text_def
      shapeless_text_def)

lemma example_world_fields:
  "classifier_reply example_world = Inr accept_text"
  "content_reply example_world = Inr ''## Binary search trees''"
  "visual_reply example_world = Inr (Some ''Sorry, no metadata today.'')"
  "narration_reply example_world = Inr (Some ''A binary search tree keeps its keys in order.'')"
  "json_parse example_world = example_parse"
  "VERCEL example_world = Some ''1''"
  "now example_world = 1700000000000"
  "publicDir example_world = ''/srv/app/server/public''"
  "disk_ok example_world"
  by (simp_all add: example_world_def)

text \<open>\<open>runSupervisor\<close>, case by case.\<close>

lemma runSupervisor_cases:
  "runSupervisor w s =
     (case classifier_reply w of
        Inl e \<Rightarrow> s\<lparr>rejected := False, topic := Some (query s),
                    classification := Str ''placement_topic''\<rparr>
      | Inr content \<Rightarrow>
          (case json_parse w (strip_close_fence (strip_open_fence (trim content))) of
             Inl e \<Rightarrow> s\<lparr>rejected := False, topic := Some (query s),
                         classification := Str ''placement_topic''\<rparr>
           | Inr result \<Rightarrow>
               if nullish result
               then s\<lparr>rejected := False, topic := Some (query s),
                       classification := Str ''placement_topic''\<rparr>
               else (case (get_prop result ''classification'', get_prop result ''reason'') of
                       (Inr cls, Inr reason) \<Rightarrow>
                         if cls = Str ''placement_topic''
                         then s\<lparr>rejected := False, topic := Some (query s), classification := cls\<rparr>
                         else s\<lparr>rejected := True,
                                rejectionReason := Some
                                  ((if cls = Str ''harmful'' then harmful_prefix
                                    else irrelevant_prefix) @ to_string reason),
                                classification := cls\<rparr>
                     | _ \<Rightarrow> s)))"
proof (cases "classifier_reply w")
  case (Inl e)
  then show ?thesis by (simp add: runSupervisor_def supervisor_try_def)
next
  case (Inr content)
  show ?thesis
  proof (cases "json_parse w (strip_close_fence (strip_open_fence (trim content)))")
    case (Inl e)
    with Inr show ?thesis by (simp add: runSupervisor_def supervisor_try_def)
  next
    case p: (Inr result)
    show ?thesis
      using Inr p
      by (cases result) (simp_all add: runSupervisor_def supervisor_try_def nullish_def)
  qed
qed


section \<open>Initial state\<close>

text \<open>
  Claim C4, as amended.  The duration stored in the initial state always lies in 2..5,
  both when \<open>createInitialState\<close> is called with a number and when the route builds the
  state from the request.  A request value that \<open>parseInt\<close> reads as \<open>NaN\<close> (absent,
  not numeric) or as 0 is stored as 3; any other value is read as an integer and stored
  as 2 when below 2, as 5 when above 5, unchanged otherwise.
\<close>

theorem initial_duration_clamped:
  "2 \<le> duration (createInitialState q x) \<and> duration (createInitialState q x) \<le> 5
   \<and> duration (createInitialState q x) = stored_duration x
   \<and> (\<forall>s. request_initial_state r d = Some s \<longrightarrow>
          2 \<le> duration s \<and> duration s \<le> 5 \<and> duration s = stored_duration (parseInt d))"
  by (auto simp: createInitialState_def request_initial_state_def durationVal_def num_or_def
      stored_duration_def split: jsval.splits jsnum.splits if_splits)

lemma parseInt_examples:
  "parseInt (Num 0) = Fin 0" "parseInt (Num 9) = Fin 9"
  by code_simp+

lemma trim_explain_bst: "trim ''explain bst'' = ''explain bst''"
  by (simp add: trim_def is_ws_def)

theorem initial_duration_clamped_witness:
  "duration (createInitialState ''explain bst'' (Fin 9)) = 5
   \<and> map_option duration (request_initial_state (Str ''explain bst'') (Num 9)) = Some 5"
proof -
  have "request_initial_state (Str ''explain bst'') (Num 9)
          = Some (createInitialState ''explain bst'' (Fin (durationVal (Num 9))))"
    by (simp add: request_initial_state_def trim_explain_bst)
  with initial_duration_clamped
    [of "''explain bst''" "Fin 9" "Str ''explain bst''" "Num 9"]
  show ?thesis
    by (simp add: stored_duration_def parseInt_examples)
qed

text \<open>
  The claim as stated fails at the number 0: it is below 2, and the stored duration is
  3, not 2.
\<close>

theorem duration_zero_counterexample:
  "map_option duration (request_initial_state (Str ''explain bst'') (Num 0)) = Some 3
   \<and> map_option duration (request_initial_state (Str ''explain bst'') (Num 0)) \<noteq> Some 2"
  by (simp add: request_initial_state_def trim_explain_bst createInitialState_def durationVal_def
      parseInt_examples num_or_def)

section \<open>Classifier stage\<close>


lemma spam_state:
  "runSupervisor (example_world\<lparr>classifier_reply := Inr spam_text\<rparr>) example_state
     = example_state\<lparr>rejected := True,
         rejectionReason := Some (irrelevant_prefix @ ''unsolicited''),
         classification := Str ''spam''\<rparr>"
  by (simp add: runSupervisor_cases example_world_fields trim_spam_text fences_spam_text
      example_parse_simps spam_json_def nullish_def)





text \<open>
  Claim C1, at the input where the code departs from it.  The classifier's reply parses
  and accepts the query with \<open>detectedTopic = "Binary Search Trees"\<close>.  \<open>runSupervisor\<close>
  of \<open>supervisor.js\<close> stores the raw query as the topic; the classifier of
  \<open>api/chat.js\<close>, given the same reply, stores the detected topic.
\<close>

theorem supervisor_ignores_detected_topic:
  "topic (runSupervisor example_world example_state) = Some ''explain bst''
   \<and> get_prop accept_json ''detectedTopic'' = Inr (Str ''Binary Search Trees'')
   \<and> map_sum id sr_topic (api_runSupervisor example_world ''explain bst'')
       = Inr (Str ''Binary Search Trees'')"
  by (simp add: runSupervisor_def supervisor_try_def api_runSupervisor_def example_world_def
      fences_accept_text trim_accept_text example_parse_simps accept_json_def Let_def
      example_state_def createInitialState_def js_or_def)

text \<open>On every accepted run of \<open>runSupervisor\<close> the topic is the query.\<close>

lemma supervisor_topic_is_query:
  "\<not> rejected (runSupervisor w s) \<Longrightarrow> topic (runSupervisor w s) = Some (query s)"
  by (auto simp: runSupervisor_def supervisor_try_def Let_def bindE_def
      split: sum.splits if_splits)


section \<open>Stages after a rejection\<close>

text \<open>
  Claim C9.  A state with \<open>rejected = true\<close> passes through the content stage and
  through the media stage unchanged (and the media stage writes no file), so
  \<open>markdown\<close>, \<open>imageUrl\<close> and \<open>audioText\<close> keep the values they had.
\<close>

theorem rejected_passes_through:
  assumes "rejected s"
  shows "runResearcher w s = s \<and> runMediaEngine w files s = (s, files)"
  using assms by (simp add: runResearcher_def runMediaEngine_def)

theorem rejected_passes_through_witness:
  "runResearcher example_world (example_state\<lparr>rejected := True\<rparr>)
     = example_state\<lparr>rejected := True\<rparr>
   \<and> runMediaEngine example_world Map.empty (example_state\<lparr>rejected := True\<rparr>)
       = (example_state\<lparr>rejected := True\<rparr>, Map.empty)"
  using rejected_passes_through [of "example_state\<lparr>rejected := True\<rparr>" example_world Map.empty]
  by simp

section \<open>The whole run\<close>

lemma runSupervisor_markdown: "markdown (runSupervisor w s) = markdown s"
  by (auto simp: runSupervisor_def supervisor_try_def Let_def bindE_def
      split: sum.splits if_splits)

lemma runMediaEngine_keeps:
  "rejected (fst (runMediaEngine w files s)) = rejected s"
  "markdown (fst (runMediaEngine w files s)) = markdown s"
  "classification (fst (runMediaEngine w files s)) = classification s"
  by (simp_all add: runMediaEngine_def Let_def)

lemma runResearcher_keeps:
  "rejected (runResearcher w s) = rejected s"
  "classification (runResearcher w s) = classification s"
  by (simp_all add: runResearcher_def split: sum.splits)

lemma runResearcher_markdown: "\<not> rejected s \<Longrightarrow> markdown (runResearcher w s) \<noteq> None"
  by (simp add: runResearcher_def split: sum.splits)


lemma invoke_rejected:
  "rejected (fst (invoke w files i)) = rejected (runSupervisor w (merge_state channel_defaults i))"
  by (simp add: invoke_def Let_def runMediaEngine_keeps runResearcher_keeps)

lemma merge_state_topic [simp]: "topic (merge_state a b) = keep_or (topic a) (topic b)"
  by (simp add: merge_state_def)

lemma error_markdown_topic: "topic a = topic b \<Longrightarrow> error_markdown a e = error_markdown b e"
  by (simp add: error_markdown_def topic_val_def)

lemma runResearcher_markdown_value:
  "\<not> rejected s \<Longrightarrow>
     markdown (runResearcher w s) =
       Some (case content_reply w of Inr c \<Rightarrow> trim c | Inl e \<Rightarrow> error_markdown s e)"
  by (simp add: runResearcher_def split: sum.splits)

text \<open>
  Claim C3, as amended.  A run of the graph from an initial state always completes.  A
  rejected run ends with \<open>markdown\<close> absent.  An accepted run ends with \<open>markdown\<close> not
  null: it is the trimmed reply of the content request, or, when that request throws,
  the apology naming the topic and the error.  So \<open>rejected = true\<close> holds exactly when
  \<open>markdown\<close> is null.  The trimmed reply may be the empty string.
\<close>

theorem rejected_xor_markdown:
  "(rejected (fst (invoke w files (createInitialState q d)))
      \<longrightarrow> markdown (fst (invoke w files (createInitialState q d))) = None)
   \<and> (\<not> rejected (fst (invoke w files (createInitialState q d)))
      \<longrightarrow> markdown (fst (invoke w files (createInitialState q d))) =
            Some (case content_reply w of
                    Inr c \<Rightarrow> trim c
                  | Inl e \<Rightarrow> error_markdown ((createInitialState q d)\<lparr>topic := Some q\<rparr>) e))
   \<and> (rejected (fst (invoke w files (createInitialState q d)))
        = (markdown (fst (invoke w files (createInitialState q d))) = None))"
proof -
  let ?s0 = "merge_state channel_defaults (createInitialState q d)"
  let ?s1 = "merge_state ?s0 (runSupervisor w ?s0)"
  have q0: "query ?s0 = q" and t0: "topic ?s0 = None"
    by (simp_all add: createInitialState_def channel_defaults_def)
  have m0: "markdown ?s0 = None"
    by (simp add: createInitialState_def channel_defaults_def)
  have m1: "markdown ?s1 = None"
    using m0 by (simp add: runSupervisor_markdown)
  show ?thesis
  proof (cases "rejected ?s1")
    case True
    then have "invoke w files (createInitialState q d) = (?s1, files)"
      by (simp add: invoke_def Let_def routeAfterSupervisor_def)
    with True m1 show ?thesis by simp
  next
    case False
    let ?s2 = "merge_state ?s1 (runResearcher w ?s1)"
    let ?r = "runMediaEngine w files ?s2"
    let ?md = "Some (case content_reply w of
                    Inr c \<Rightarrow> trim c
                  | Inl e \<Rightarrow> error_markdown ((createInitialState q d)\<lparr>topic := Some q\<rparr>) e)"
    from False
    have inv: "invoke w files (createInitialState q d) = (merge_state ?s2 (fst ?r), snd ?r)"
      by (simp add: invoke_def Let_def routeAfterSupervisor_def)
    from False have nr: "\<not> rejected (runSupervisor w ?s0)" by simp
    then have "topic (runSupervisor w ?s0) = Some q"
      using supervisor_topic_is_query [of w ?s0] q0 by simp
    then have t1: "topic ?s1 = Some q" by simp
    then have em: "error_markdown ?s1 e = error_markdown ((createInitialState q d)\<lparr>topic := Some q\<rparr>) e" for e
      by (intro error_markdown_topic) simp
    from False have "markdown (runResearcher w ?s1) = Some (case content_reply w of Inr c \<Rightarrow> trim c | Inl e \<Rightarrow> error_markdown ?s1 e)"
      by (rule runResearcher_markdown_value)
    then have "markdown (runResearcher w ?s1) = ?md"
      by (simp add: em split: sum.splits)
    then have m2: "markdown ?s2 = ?md" by simp
    from False have r2: "\<not> rejected ?s2"
      by (simp add: runResearcher_keeps)
    have rf: "rejected (merge_state ?s2 (fst ?r)) = rejected ?s2"
      by (simp add: runMediaEngine_keeps)
    have mf: "markdown (merge_state ?s2 (fst ?r)) = ?md"
      using m2 by (simp add: runMediaEngine_keeps)
    show ?thesis
      unfolding inv fst_conv
      using rf r2 mf by simp
  qed
qed

lemma runSupervisor_world_content:
  "runSupervisor (w\<lparr>content_reply := c\<rparr>) s = runSupervisor w s"
  by (simp add: runSupervisor_def supervisor_try_def)

lemma example_accepts:
  "\<not> rejected (runSupervisor example_world (merge_state channel_defaults example_state))"
  by (simp add: runSupervisor_cases example_world_fields trim_accept_text fences_accept_text
      example_parse_simps accept_json_def nullish_def)

lemma trim_content_examples:
  "trim ''## Binary search trees'' = ''## Binary search trees''"
  "trim ''  '' = []"
  by (simp_all add: trim_def is_ws_def)

theorem rejected_xor_markdown_witness:
  "\<not> rejected (fst (invoke example_world Map.empty example_state))
   \<and> markdown (fst (invoke example_world Map.empty example_state)) = Some ''## Binary search trees''"
proof -
  have "\<not> rejected (fst (invoke example_world Map.empty example_state))"
    by (simp add: invoke_rejected example_accepts)
  with rejected_xor_markdown [of example_world Map.empty "''explain bst''" "Fin 3", folded example_state_def]
  show ?thesis
    by (simp add: example_world_fields trim_content_examples)
qed

text \<open>
  The claim as stated fails when the content request returns blank text: the run is
  accepted and ends with \<open>markdown\<close> the empty string, neither content nor the apology,
  which the media stage takes for missing.
\<close>

theorem blank_content_counterexample:
  "\<not> rejected (fst (invoke (example_world\<lparr>content_reply := Inr ''  ''\<rparr>) Map.empty example_state))
   \<and> markdown (fst (invoke (example_world\<lparr>content_reply := Inr ''  ''\<rparr>) Map.empty example_state))
       = Some []
   \<and> \<not> has_markdown (fst (invoke (example_world\<lparr>content_reply := Inr ''  ''\<rparr>) Map.empty
                             example_state))"
proof -
  let ?w = "example_world\<lparr>content_reply := Inr ''  ''\<rparr>"
  let ?s0 = "merge_state channel_defaults example_state"
  let ?s1 = "merge_state ?s0 (runSupervisor ?w ?s0)"
  have nr: "\<not> rejected ?s1"
    by (simp add: runSupervisor_world_content example_accepts)
  have m1: "markdown ?s1 = None"
    by (simp add: runSupervisor_markdown example_state_def createInitialState_def
        channel_defaults_def)
  from nr have "markdown (runResearcher ?w ?s1) = Some []"
    by (simp add: runResearcher_markdown_value trim_content_examples)
  then have "markdown (fst (invoke ?w Map.empty example_state)) = Some []"
    using nr by (simp add: invoke_def Let_def routeAfterSupervisor_def runMediaEngine_keeps)
  moreover have "\<not> rejected (fst (invoke ?w Map.empty example_state))"
    using nr by (simp add: invoke_rejected)
  ultimately show ?thesis
    by (simp add: has_markdown_def)
qed






section \<open>Escaping\<close>

lemma replace_char_concat_map:
  "replace_char c r (concat (map f s)) = concat (map (\<lambda>x. replace_char c r (f x)) s)"
  by (induction s) (simp_all add: replace_char_def)

lemma escapeXml_chars: "escapeXml s = concat (map escape_char s)"
proof -
  have "replace_char (CHR ''&'') ''&amp;'' s
          = concat (map (\<lambda>x. if x = CHR ''&'' then ''&amp;'' else [x]) s)"
    by (simp add: replace_char_def)
  then show ?thesis
    unfolding escapeXml_def
    apply (simp only: replace_char_concat_map)
    apply (rule arg_cong [where f = concat])
    apply (rule map_cong [OF refl])
    apply (simp add: replace_char_def escape_char_def)
    done
qed

lemma well_escaped_escape_char: "well_escaped (escape_char c @ rest) = well_escaped rest"
  by (simp add: escape_char_def entity_tails_def starts_with_def)

text \<open>What \<open>escapeXml\<close> returns is well escaped, whatever the text.\<close>

lemma well_escaped_escapeXml: "well_escaped (escapeXml s)"
  unfolding escapeXml_chars
  by (induction s) (simp_all add: well_escaped_escape_char)

text \<open>
  Claim C7, at the input where the code departs from it.  The key concept
  \<open>aaaaaaaaaaaaaaaa&b\<close> is escaped to \<open>aaaaaaaaaaaaaaaa&amp;b\<close>, and the card then shows the
  first 18 characters of the escaped text: \<open>aaaaaaaaaaaaaaaa&a\<close>, in which \<open>&\<close> opens no
  entity.
\<close>

theorem concept_label_cuts_entity:
  "escaped_concepts (Arr [Str ''aaaaaaaaaaaaaaaa&b'']) = Inr [''aaaaaaaaaaaaaaaa&amp;b'']
   \<and> concept_label ''aaaaaaaaaaaaaaaa&amp;b'' = ''aaaaaaaaaaaaaaaa&a''
   \<and> \<not> well_escaped (concept_label ''aaaaaaaaaaaaaaaa&amp;b'')"
  by (simp add: escaped_concepts_def js_or_def escapeXml_val_def nullish_def escapeXml_chars
      escape_char_def concept_label_def entity_tails_def starts_with_def)

section \<open>Media stage\<close>

lemma theme_lookup_general: "theme_lookup (Str ''general'') = Theme general_theme"
  by (simp add: theme_lookup_def general_theme_def CATEGORY_THEMES_def)

lemma default_literals:
  "escapeXml ''CSE Placement Preparation'' = ''CSE Placement Preparation''"
  "escapeXml ''Understand the fundamentals thoroughly.'' = ''Understand the fundamentals thoroughly.''"
  "escapeXml ''Concept 1'' = ''Concept 1''"
  "escapeXml ''Concept 2'' = ''Concept 2''"
  "escapeXml ''Concept 3'' = ''Concept 3''"
  "escapeXml ''Concept 4'' = ''Concept 4''"
  "escapeXml [] = []"
  by (simp_all add: escapeXml_chars escape_char_def)

lemma upper_general:
  "escapeXml [upper_ascii CHR ''g'', upper_ascii CHR ''e'', upper_ascii CHR ''n'',
              upper_ascii CHR ''e'', upper_ascii CHR ''r'', upper_ascii CHR ''a'',
              upper_ascii CHR ''l''] = ''GENERAL''"
  by code_simp

lemma js_or_simps:
  "js_or Undefined d = d"
  "js_or Null d = d"
  "js_or (Str []) d = d"
  "js_or (Str (c # cs)) d = Str (c # cs)"
  "js_or (Arr xs) d = Arr xs"
  "js_or (Obj kvs) d = Obj kvs"
  "js_or (Num n) d = (if n = 0 then d else Num n)"
  by (simp_all add: js_or_def)

lemma default_title_escape:
  "escapeXml_val (js_or (topic_val s) (Str ''Topic'')) = Inr (escapeXml (default_title s))"
  by (simp add: escapeXml_val_def js_or_def topic_val_def default_title_def nullish_def
      split: option.splits)

lemma escapeXml_val_Str: "escapeXml_val (Str t) = Inr (escapeXml t)"
  by (simp add: escapeXml_val_def nullish_def)

lemma default_svg_renders: "generateTopicSVG (default_metadata s) = Inr (default_svg s)"
  by (simp add: generateTopicSVG_def default_metadata_def theme_lookup_general
      default_title_escape escaped_concepts_def js_or_simps escapeXml_val_Str
      default_literals upper_general default_svg_def Let_def)


lemma visual_try_cases:
  "visual_try w files s =
     (case visual_reply w of
        Inl e \<Rightarrow> Inl e
      | Inr content \<Rightarrow>
          (case generateTopicSVG (image_metadata w s content) of
             Inl e \<Rightarrow> Inl e
           | Inr svg \<Rightarrow>
               if on_vercel w then Inr (data_uri svg, files)
               else if disk_ok w then Inr (''/public/'' @ imageFileName w, files(imagePath w \<mapsto> svg))
               else Inl (IoError ''EACCES: permission denied'')))"
  by (simp add: visual_try_def writeFileSync_def Let_def bindE_def split: sum.splits)

lemma narration_try_cases:
  "narration_try w s =
     (case narration_reply w of
        Inl e \<Rightarrow> Inl e
      | Inr None \<Rightarrow> Inr None
      | Inr (Some c) \<Rightarrow> Inr (if trim c = [] then None else Some (trim c)))"
  by (simp add: narration_try_def bindE_def split: sum.splits option.splits)

lemma runMediaEngine_fields:
  assumes "\<not> rejected s" and "has_markdown s"
  shows "mediaFailed (fst (runMediaEngine w files s)) = (visual_failed w files s \<or> narration_failed w s)"
    and "audioText (fst (runMediaEngine w files s)) = (case narration_try w s of Inl e \<Rightarrow> None | Inr t \<Rightarrow> t)"
    and "imageUrl (fst (runMediaEngine w files s)) = (case visual_try w files s of Inl e \<Rightarrow> None | Inr r \<Rightarrow> Some (fst r))"
    and "snd (runMediaEngine w files s) = (case visual_try w files s of Inl e \<Rightarrow> files | Inr r \<Rightarrow> snd r)"
  using assms
  by (simp_all add: runMediaEngine_def visual_failed_def narration_failed_def Let_def
      split: sum.splits prod.splits)

text \<open>
  Claim C5, as amended.  On a state that the media stage works on (not rejected, with
  markdown), \<open>mediaFailed\<close> is the disjunction of the two sub-task failures, a failure
  being an exception in the sub-task's \<open>try\<close> block.  \<open>audioText\<close> is a function of the
  narration reply alone and \<open>imageUrl\<close> of the visual sub-task alone; neither sub-task
  reads the other's reply.  When the visual sub-task fails and the narration reply holds
  text that is not blank, the result has \<open>mediaFailed = true\<close>, \<open>audioText\<close> that text
  trimmed, and \<open>imageUrl\<close> absent; a narration reply that is empty or missing leaves
  \<open>audioText\<close> absent without being a failure.  When the narration sub-task fails and the
  visual one does not, the result has \<open>mediaFailed = true\<close>, \<open>imageUrl\<close> set and
  \<open>audioText\<close> absent.
\<close>

theorem media_failures_independent:
  assumes "\<not> rejected s" and "has_markdown s"
  shows "mediaFailed (fst (runMediaEngine w files s)) = (visual_failed w files s \<or> narration_failed w s)
    \<and> audioText (fst (runMediaEngine w files s)) =
        (case narration_reply w of
           Inl e \<Rightarrow> None
         | Inr None \<Rightarrow> None
         | Inr (Some c) \<Rightarrow> if trim c = [] then None else Some (trim c))
    \<and> imageUrl (fst (runMediaEngine w files s)) =
        (case visual_try w files s of Inl e \<Rightarrow> None | Inr r \<Rightarrow> Some (fst r))
    \<and> visual_try (w\<lparr>narration_reply := n\<rparr>) files s = visual_try w files s
    \<and> narration_try (w\<lparr>visual_reply := v\<rparr>) s = narration_try w s
    \<and> (visual_failed w files s \<and> narration_reply w = Inr (Some c) \<and> trim c \<noteq> [] \<longrightarrow>
         mediaFailed (fst (runMediaEngine w files s))
         \<and> audioText (fst (runMediaEngine w files s)) = Some (trim c)
         \<and> imageUrl (fst (runMediaEngine w files s)) = None)
    \<and> (narration_failed w s \<and> \<not> visual_failed w files s \<longrightarrow>
         mediaFailed (fst (runMediaEngine w files s))
         \<and> imageUrl (fst (runMediaEngine w files s)) \<noteq> None
         \<and> audioText (fst (runMediaEngine w files s)) = None)"
proof -
  have indep_v: "visual_try (w\<lparr>narration_reply := n\<rparr>) files s = visual_try w files s"
    by (auto simp: visual_try_cases image_metadata_def on_vercel_def
        imagePath_def imageFileName_def split: sum.splits)
  have indep_n: "narration_try (w\<lparr>visual_reply := v\<rparr>) s = narration_try w s"
    by (simp add: narration_try_def)
  show ?thesis
    using assms indep_v indep_n
    by (auto simp: runMediaEngine_fields narration_try_cases visual_failed_def
        narration_failed_def split: sum.splits option.splits)
qed

lemma example_content_state_ok:
  "\<not> rejected example_content_state" "has_markdown example_content_state"
  "topic example_content_state = Some ''explain bst''"
  by (simp_all add: example_content_state_def example_state_def createInitialState_def
      has_markdown_def)

lemma trim_narration:
  "trim ''A binary search tree keeps its keys in order.'' = ''A binary search tree keeps its keys in order.''"
  by (simp add: trim_def is_ws_def)

theorem media_failures_independent_witness:
  "mediaFailed (fst (runMediaEngine (example_world\<lparr>visual_reply := Inl (ApiError ''rate limit'')\<rparr>)
                       Map.empty example_content_state))
   \<and> audioText (fst (runMediaEngine (example_world\<lparr>visual_reply := Inl (ApiError ''rate limit'')\<rparr>)
                         Map.empty example_content_state))
       = Some ''A binary search tree keeps its keys in order.''
   \<and> imageUrl (fst (runMediaEngine (example_world\<lparr>visual_reply := Inl (ApiError ''rate limit'')\<rparr>)
                        Map.empty example_content_state)) = None"
proof -
  let ?w = "example_world\<lparr>visual_reply := Inl (ApiError ''rate limit'')\<rparr>"
  have vf: "visual_failed ?w Map.empty example_content_state"
    by (simp add: visual_failed_def visual_try_def)
  have nr: "narration_reply ?w = Inr (Some ''A binary search tree keeps its keys in order.'')"
    by (simp add: example_world_def)
  let ?c = "''A binary search tree keeps its keys in order.''"
  let ?r = "fst (runMediaEngine ?w Map.empty example_content_state)"
  from media_failures_independent [OF example_content_state_ok(1,2), of ?w Map.empty "Inr None" "Inr None" ?c]
  have "visual_failed ?w Map.empty example_content_state \<and> narration_reply ?w = Inr (Some ?c)
          \<and> trim ?c \<noteq> []
        \<longrightarrow> mediaFailed ?r \<and> audioText ?r = Some (trim ?c) \<and> imageUrl ?r = None"
    by blast
  with vf nr show ?thesis
    by (simp add: trim_narration)
qed

text \<open>
  The claim as stated fails when the narration request returns an empty text: the
  visual sub-task fails, the narration sub-task does not, and \<open>audioText\<close> is absent.
\<close>

theorem empty_narration_counterexample:
  "visual_failed (example_world\<lparr>visual_reply := Inl (ApiError ''rate limit''), narration_reply := Inr (Some [])\<rparr>)
      Map.empty example_content_state
   \<and> \<not> narration_failed (example_world\<lparr>visual_reply := Inl (ApiError ''rate limit''), narration_reply := Inr (Some [])\<rparr>)
          example_content_state
   \<and> audioText (fst (runMediaEngine
         (example_world\<lparr>visual_reply := Inl (ApiError ''rate limit''), narration_reply := Inr (Some [])\<rparr>)
         Map.empty example_content_state)) = None"
  by (simp add: runMediaEngine_fields example_content_state_ok visual_failed_def narration_failed_def
      visual_try_def narration_try_def trim_def)


lemma visual_failed_iff:
  "visual_failed w files s \<longleftrightarrow>
     (\<exists>e. visual_reply w = Inl e)
     \<or> (\<exists>content. visual_reply w = Inr content
          \<and> ((\<exists>e. generateTopicSVG (image_metadata w s content) = Inl e)
             \<or> (\<not> on_vercel w \<and> \<not> disk_ok w)))"
  by (auto simp: visual_failed_def visual_try_cases split: sum.splits)

text \<open>
  Claim C6, as amended.  When the visual reply arrives and \<open>JSON.parse\<close> throws on it,
  the default metadata is substituted, the renderer produces the default document from
  it, and the sub-task fails only if the image cannot be stored (not serverless, and the
  write is refused): the parse failure by itself does not set \<open>mediaFailed\<close>.  In
  general the visual sub-task fails exactly when the completion request throws, or the
  renderer throws on the metadata (a reply that parses to a value of the wrong shape),
  or the image cannot be stored.
\<close>

theorem visual_failure_causes:
  "(visual_reply w = Inr content \<and> json_parse w (metadata_text content) = Inl e \<longrightarrow>
      image_metadata w s content = default_metadata s
      \<and> generateTopicSVG (image_metadata w s content) = Inr (default_svg s)
      \<and> (visual_failed w files s \<longleftrightarrow> \<not> on_vercel w \<and> \<not> disk_ok w))
   \<and> (visual_failed w files s \<longleftrightarrow>
        (\<exists>e. visual_reply w = Inl e)
        \<or> (\<exists>content. visual_reply w = Inr content
             \<and> ((\<exists>e. generateTopicSVG (image_metadata w s content) = Inl e)
                \<or> (\<not> on_vercel w \<and> \<not> disk_ok w))))"
proof -
  have "image_metadata w s content = default_metadata s
        \<and> generateTopicSVG (image_metadata w s content) = Inr (default_svg s)
        \<and> (visual_failed w files s \<longleftrightarrow> \<not> on_vercel w \<and> \<not> disk_ok w)"
    if r: "visual_reply w = Inr content" and p: "json_parse w (metadata_text content) = Inl e"
  proof -
    from p have m: "image_metadata w s content = default_metadata s"
      by (simp add: image_metadata_def)
    then have g: "generateTopicSVG (image_metadata w s content) = Inr (default_svg s)"
      by (simp add: default_svg_renders)
    from r g have "visual_failed w files s \<longleftrightarrow> \<not> on_vercel w \<and> \<not> disk_ok w"
      by (simp add: visual_failed_def visual_try_cases)
    with m g show ?thesis by simp
  qed
  then show ?thesis
    using visual_failed_iff [of w files s] by blast
qed

lemma metadata_text_examples:
  "metadata_text (Some ''Sorry, no metadata today.'') = ''Sorry, no metadata today.''"
  "metadata_text (Some numeric_title_text) = numeric_title_text"
  by (simp_all add: metadata_text_def trim_def is_ws_def json_match_def numeric_title_text_def)

lemma example_parse_sorry:
  "example_parse ''Sorry, no metadata today.'' = Inl (SyntaxError ''Unexpected token'')"
  by (simp add: example_parse_def accept_text_def spam_text_def numeric_title_text_def
      shapeless_text_def)

lemma on_vercel_example: "on_vercel example_world" "\<not> on_vercel (example_world\<lparr>VERCEL := None\<rparr>)"
  by (simp_all add: on_vercel_def example_world_def)

theorem visual_failure_causes_witness:
  "image_metadata example_world example_content_state (Some ''Sorry, no metadata today.'')
     = default_metadata example_content_state
   \<and> generateTopicSVG
        (image_metadata example_world example_content_state (Some ''Sorry, no metadata today.''))
       = Inr (default_svg example_content_state)
   \<and> \<not> visual_failed example_world Map.empty example_content_state"
proof -
  have r: "visual_reply example_world = Inr (Some ''Sorry, no metadata today.'')"
    by (simp add: example_world_def)
  have p: "json_parse example_world (metadata_text (Some ''Sorry, no metadata today.''))
             = Inl (SyntaxError ''Unexpected token'')"
    by (simp add: metadata_text_examples example_parse_sorry example_world_def)
  from visual_failure_causes [of example_world "Some ''Sorry, no metadata today.''" "SyntaxError ''Unexpected token''"
      example_content_state Map.empty] r p on_vercel_example(1)
  show ?thesis by blast
qed

lemma numeric_title_throws:
  "generateTopicSVG numeric_title_json = Inl (TypeError ''str.replace is not a function'')"
  by (simp add: generateTopicSVG_def numeric_title_json_def js_or_simps escapeXml_val_def
      nullish_def Let_def)

text \<open>
  The claim as stated fails on a reply that parses: the completion request returns
  \<open>{"title":7}\<close>, nothing throws in the request, the renderer throws on the numeric
  title, and \<open>mediaFailed\<close> is true.
\<close>

theorem parsed_metadata_failure_counterexample:
  "visual_reply (example_world\<lparr>visual_reply := Inr (Some numeric_title_text)\<rparr>)
     = Inr (Some numeric_title_text)
   \<and> json_parse (example_world\<lparr>visual_reply := Inr (Some numeric_title_text)\<rparr>)
        (metadata_text (Some numeric_title_text)) = Inr numeric_title_json
   \<and> visual_failed (example_world\<lparr>visual_reply := Inr (Some numeric_title_text)\<rparr>)
        Map.empty example_content_state
   \<and> \<not> narration_failed (example_world\<lparr>visual_reply := Inr (Some numeric_title_text)\<rparr>)
          example_content_state
   \<and> mediaFailed (fst (runMediaEngine
        (example_world\<lparr>visual_reply := Inr (Some numeric_title_text)\<rparr>)
        Map.empty example_content_state))"
proof -
  let ?w = "example_world\<lparr>visual_reply := Inr (Some numeric_title_text)\<rparr>"
  have p: "json_parse ?w (metadata_text (Some numeric_title_text)) = Inr numeric_title_json"
    by (simp add: metadata_text_examples example_parse_simps example_world_def)
  then have vf: "visual_failed ?w Map.empty example_content_state"
    by (simp add: visual_failed_def visual_try_cases image_metadata_def numeric_title_throws)
  have nf: "\<not> narration_failed ?w example_content_state"
    by (simp add: narration_failed_def narration_try_cases example_world_def)
  from p vf nf show ?thesis
    by (simp add: runMediaEngine_fields example_content_state_ok)
qed

text \<open>
  Claim C8, as amended.  When the visual sub-task succeeds, the reply arrived and the
  renderer produced a document.  With \<open>VERCEL\<close> set, \<open>imageUrl\<close> is the data URI holding
  the base64 encoding of the document and the file system is untouched.  Otherwise the
  document is written to \<open>topic-<timestamp>.svg\<close> in the public folder and \<open>imageUrl\<close>
  is the path \<open>/public/topic-<timestamp>.svg\<close>.
\<close>

theorem image_url_by_environment:
  assumes "visual_try w files s = Inr (url, files')"
  shows "(\<exists>content svg. visual_reply w = Inr content
            \<and> generateTopicSVG (image_metadata w s content) = Inr svg
            \<and> (if on_vercel w then url = data_uri svg \<and> files' = files
                else url = ''/public/'' @ imageFileName w \<and> files' = files(imagePath w \<mapsto> svg)))
         \<and> (\<not> rejected s \<and> has_markdown s \<longrightarrow>
               imageUrl (fst (runMediaEngine w files s)) = Some url
               \<and> snd (runMediaEngine w files s) = files')"
proof -
  from assms
  have "\<exists>content svg. visual_reply w = Inr content
            \<and> generateTopicSVG (image_metadata w s content) = Inr svg
            \<and> (if on_vercel w then url = data_uri svg \<and> files' = files
                else url = ''/public/'' @ imageFileName w \<and> files' = files(imagePath w \<mapsto> svg))"
    by (auto simp: visual_try_cases split: sum.splits if_splits)
  moreover from assms
  have "\<not> rejected s \<and> has_markdown s \<longrightarrow>
               imageUrl (fst (runMediaEngine w files s)) = Some url
               \<and> snd (runMediaEngine w files s) = files'"
    by (simp add: runMediaEngine_fields)
  ultimately show ?thesis by blast
qed

lemma example_visual_try:
  "visual_try example_world Map.empty example_content_state
     = Inr (data_uri (default_svg example_content_state), Map.empty)"
  by (simp add: visual_try_cases on_vercel_example image_metadata_def metadata_text_examples
      example_parse_sorry default_svg_renders example_world_fields)

theorem image_url_by_environment_witness:
  "imageUrl (fst (runMediaEngine example_world Map.empty example_content_state))
     = Some (data_uri (default_svg example_content_state))
   \<and> snd (runMediaEngine example_world Map.empty example_content_state) = Map.empty"
  using image_url_by_environment [OF example_visual_try] example_content_state_ok
  by simp

lemma example_file_name:
  "imageFileName (example_world\<lparr>VERCEL := None\<rparr>) = ''topic-1700000000000.svg''"
  "imagePath (example_world\<lparr>VERCEL := None\<rparr>) = ''/srv/app/server/public/topic-1700000000000.svg''"
  by (simp_all add: imagePath_def imageFileName_def example_world_fields show_nat.simps
      digit_char_def)

text \<open>
  The claim as stated fails outside the serverless environment: the visual sub-task
  succeeds, \<open>imageUrl\<close> is a path and not a data URI, and the document is in the file
  system.
\<close>

theorem local_run_writes_file_counterexample:
  "\<not> visual_failed (example_world\<lparr>VERCEL := None\<rparr>) Map.empty example_content_state
   \<and> imageUrl (fst (runMediaEngine (example_world\<lparr>VERCEL := None\<rparr>) Map.empty example_content_state))
       = Some ''/public/topic-1700000000000.svg''
   \<and> snd (runMediaEngine (example_world\<lparr>VERCEL := None\<rparr>) Map.empty example_content_state)
         ''/srv/app/server/public/topic-1700000000000.svg''
       = Some (default_svg example_content_state)"
proof -
  let ?w = "example_world\<lparr>VERCEL := None\<rparr>"
  have "visual_try ?w Map.empty example_content_state
          = Inr (''/public/topic-1700000000000.svg'',
                 [''/srv/app/server/public/topic-1700000000000.svg'' \<mapsto> default_svg example_content_state])"
    by (simp add: visual_try_cases on_vercel_example image_metadata_def metadata_text_examples
        example_parse_sorry default_svg_renders example_file_name example_world_fields)
  then show ?thesis
    by (simp add: runMediaEngine_fields example_content_state_ok visual_failed_def)
qed


end
